theory Spec2Isabelle
  imports Main "HOL-Library.Word"
begin

section \<open>JavaScript values used by the converters\<close>

text \<open>
  A value that may be \<open>null\<close> or \<open>undefined\<close> is an \<open>option\<close>; \<open>None\<close> stands for both.
  A signature is such an optional string. JavaScript's \<open>a || b\<close> yields \<open>a\<close> when \<open>a\<close> is
  truthy and \<open>b\<close> otherwise; a string is truthy exactly when it is not empty.
\<close>

definition truthy :: "string option \<Rightarrow> bool" where
  "truthy s = (case s of None \<Rightarrow> False | Some t \<Rightarrow> t \<noteq> [])"

definition js_or :: "string option \<Rightarrow> string option \<Rightarrow> string option" where
  "js_or a b = (if truthy a then a else b)"

text \<open>
  Converter strings are lists of 8-bit characters: code units below 256.
  \<open>String.prototype.trim\<close> removes white space and line terminators from both ends,
  \<open>trimEnd\<close> from the end only. Below 256 these are the tab, the line feed, the vertical
  tab, the form feed, the carriage return, the space and the no-break space U+00A0; the
  others (U+1680, U+2000 to U+200A, U+2028, U+2029, U+202F, U+205F, U+3000, U+FEFF) are
  not code units of these strings.
\<close>

definition is_space :: "char \<Rightarrow> bool" where
  "is_space c = (of_char c \<in> {9, 10, 11, 12, 13, 32, 160 :: nat})"

definition trimEnd :: "string \<Rightarrow> string" where
  "trimEnd s = rev (dropWhile is_space (rev s))"

definition trim :: "string \<Rightarrow> string" where
  "trim s = dropWhile is_space (trimEnd s)"

section \<open>Canonical message model\<close>

text \<open>
  The argument of a function call arrives as a string or as an object (kept as opaque
  text); \<open>createFunctionCallPart\<close> wraps a string as \<open>{ query: args }\<close>.
\<close>

datatype js_args = ArgString string | ArgObject string

datatype fc_args = QueryObject string | GivenObject string

text \<open>
  The content of a client message: absent, a string, or an array of content items.
  The same type carries the \<open>output\<close> of a function response, which the OpenAI path
  copies from the tool message unchanged.
\<close>

datatype content_item =
    ItemText string
  | ItemImageUrl "string option"
  | ItemOther

datatype js_content =
    ContentNone
  | ContentString string
  | ContentArray "content_item list"

text \<open>
  A part is a JavaScript object told apart by the fields it has:
  \<open>{text}\<close>, \<open>{text, thought: true, thoughtSignature?}\<close>,
  \<open>{functionCall: {id, name, args}, thoughtSignature?}\<close>,
  \<open>{functionResponse: {id, name, response: {output}}}\<close> and
  \<open>{inlineData: {mimeType, data}}\<close>.
\<close>

datatype part =
    TextPart string
  | ThoughtPart string "string option"
  | FunctionCallPart string string fc_args "string option"
  | FunctionResponsePart string string js_content
  | ImagePart string string

datatype role = User | Model

record message =
  role :: role
  parts :: "part list"

fun is_thought :: "part \<Rightarrow> bool" where
  "is_thought (ThoughtPart _ _) = True"
| "is_thought _ = False"

fun is_functionCall :: "part \<Rightarrow> bool" where
  "is_functionCall (FunctionCallPart _ _ _ _) = True"
| "is_functionCall _ = False"

fun is_functionResponse :: "part \<Rightarrow> bool" where
  "is_functionResponse (FunctionResponsePart _ _ _) = True"
| "is_functionResponse _ = False"

text \<open>The id of the function call a part holds (\<open>part.functionCall.id\<close>), if it holds one.\<close>

fun functionCall_id :: "part \<Rightarrow> string option" where
  "functionCall_id (FunctionCallPart i n a s) = Some i"
| "functionCall_id p = None"

text \<open>The \<open>thoughtSignature\<close> field of a part, \<open>None\<close> when the object has no such field.\<close>

fun thoughtSignature_of :: "part \<Rightarrow> string option" where
  "thoughtSignature_of (ThoughtPart _ s) = s"
| "thoughtSignature_of (FunctionCallPart _ _ _ s) = s"
| "thoughtSignature_of _ = None"

text \<open>\<open>delete part.thoughtSignature\<close>: removes the field when it is there.\<close>

fun delete_thoughtSignature :: "part \<Rightarrow> part" where
  "delete_thoughtSignature (ThoughtPart t _) = ThoughtPart t None"
| "delete_thoughtSignature (FunctionCallPart i n a _) = FunctionCallPart i n a None"
| "delete_thoughtSignature p = p"

section \<open>Common converter module\<close>

text \<open>
  The configuration switches and the collaborators that \<open>getSignatureContext\<close> and
  \<open>processToolName\<close> consult: the signature cache keyed by session and model, the static
  per-model fallback tables, and the tool-name sanitizer. Their code is not part of the
  module; they are parameters of the model.
\<close>

record env =
  useCachedSignature :: bool
  useFallbackSignature :: bool
  cacheOnlyToolSignatures :: bool
  getReasoningSignature :: "string \<Rightarrow> string \<Rightarrow> string option"
  getToolSignature :: "string \<Rightarrow> string \<Rightarrow> string option"
  getThoughtSignatureForModel :: "string \<Rightarrow> string option"
  getToolSignatureForModel :: "string \<Rightarrow> string option"
  sanitizeToolName :: "string \<Rightarrow> string"

record signature_context =
  reasoningSignature :: "string option"
  toolSignature :: "string option"

definition getSignatureContext :: "env \<Rightarrow> string \<Rightarrow> string \<Rightarrow> bool \<Rightarrow> signature_context" where
  "getSignatureContext e sessionId actualModelName hasTools =
    (let cachedReasoningSig =
           (if useCachedSignature e then getReasoningSignature e sessionId actualModelName else None);
         shouldGetCachedToolSig =
           (useCachedSignature e \<and> (\<not> cacheOnlyToolSignatures e \<or> hasTools));
         cachedToolSig =
           (if shouldGetCachedToolSig then getToolSignature e sessionId actualModelName else None);
         shouldUseFallbackToolSig =
           (useFallbackSignature e \<and> (\<not> cacheOnlyToolSignatures e \<or> hasTools))
     in \<lparr> reasoningSignature =
            js_or cachedReasoningSig
              (if useFallbackSignature e then getThoughtSignatureForModel e actualModelName else None),
          toolSignature =
            js_or cachedToolSig
              (if shouldUseFallbackToolSig then getToolSignatureForModel e actualModelName else None) \<rparr>)"

text \<open>\<open>extracted\<close> is the pair \<open>{text, images}\<close>; an empty text becomes a single space.\<close>

definition pushUserMessage :: "string \<times> part list \<Rightarrow> message list \<Rightarrow> message list" where
  "pushUserMessage extracted antigravityMessages =
    antigravityMessages @
      [\<lparr> role = User,
         parts = TextPart (if fst extracted \<noteq> [] then fst extracted else '' '') # snd extracted \<rparr>]"

text \<open>
  \<open>findFunctionNameById\<close>: the inner loop returns the name of the first function call of
  a message whose id is the one looked for; the outer loop visits the messages from the
  last to the first and looks into the model-role ones only.
\<close>

fun find_in_parts :: "string \<Rightarrow> part list \<Rightarrow> string option" where
  "find_in_parts toolCallId [] = None"
| "find_in_parts toolCallId (FunctionCallPart i n a s # ps) =
     (if i = toolCallId then Some n else find_in_parts toolCallId ps)"
| "find_in_parts toolCallId (p # ps) = find_in_parts toolCallId ps"

fun scan_backward :: "string \<Rightarrow> message list \<Rightarrow> string" where
  "scan_backward toolCallId [] = []"
| "scan_backward toolCallId (m # ms) =
     (if role m = Model
      then (case find_in_parts toolCallId (parts m) of
              Some n \<Rightarrow> n
            | None \<Rightarrow> scan_backward toolCallId ms)
      else scan_backward toolCallId ms)"

definition findFunctionNameById :: "string \<Rightarrow> message list \<Rightarrow> string" where
  "findFunctionNameById toolCallId antigravityMessages =
     scan_backward toolCallId (rev antigravityMessages)"

definition pushFunctionResponse ::
  "string \<Rightarrow> string \<Rightarrow> js_content \<Rightarrow> message list \<Rightarrow> message list" where
  "pushFunctionResponse toolCallId functionName resultContent antigravityMessages =
    (let functionResponse = FunctionResponsePart toolCallId functionName resultContent
     in if antigravityMessages \<noteq> [] \<and> role (last antigravityMessages) = User
           \<and> list_ex is_functionResponse (parts (last antigravityMessages))
        then butlast antigravityMessages @
               [(last antigravityMessages)
                  \<lparr> parts := parts (last antigravityMessages) @ [functionResponse] \<rparr>]
        else antigravityMessages @ [\<lparr> role = User, parts = [functionResponse] \<rparr>])"

definition createThoughtPart :: "string \<Rightarrow> string option \<Rightarrow> part" where
  "createThoughtPart text signature =
     ThoughtPart (if text \<noteq> [] then text else '' '')
                 (if truthy signature then signature else None)"

definition createFunctionCallPart ::
  "string \<Rightarrow> string \<Rightarrow> js_args \<Rightarrow> string option \<Rightarrow> part" where
  "createFunctionCallPart i name args signature =
     FunctionCallPart i name
       (case args of ArgString s \<Rightarrow> QueryObject s | ArgObject ob \<Rightarrow> GivenObject ob)
       (if truthy signature then signature else None)"

text \<open>
  \<open>processToolName\<close> returns the sanitized name. It also registers the renaming with the
  tool-name cache; that store is read by no function modelled here and is left out.
\<close>

definition processToolName :: "env \<Rightarrow> string \<Rightarrow> string \<Rightarrow> string \<Rightarrow> string" where
  "processToolName e originalName sessionId actualModelName = sanitizeToolName e originalName"

text \<open>
  \<open>pushModelMessage({parts, toolCalls, hasContent}, antigravityMessages)\<close>: the three
  fields of the options object are three arguments. The merge branch mutates the last
  message in place; here the list is returned with its last element replaced.
\<close>

definition pushModelMessage ::
  "part list \<Rightarrow> part list \<Rightarrow> bool \<Rightarrow> message list \<Rightarrow> message list" where
  "pushModelMessage ps toolCalls hasContent antigravityMessages =
    (let hasToolCalls = (toolCalls \<noteq> [])
     in if antigravityMessages \<noteq> [] \<and> role (last antigravityMessages) = Model
           \<and> hasToolCalls \<and> \<not> hasContent
        then butlast antigravityMessages @
               [(last antigravityMessages)
                  \<lparr> parts := parts (last antigravityMessages) @ toolCalls \<rparr>]
        else antigravityMessages @ [\<lparr> role = Model, parts = ps @ toolCalls \<rparr>])"

section \<open>OpenAI converter\<close>

record tool_call =
  tc_id :: string
  tc_function_name :: string
  tc_function_arguments :: js_args
  tc_thoughtSignature :: "string option"

datatype openai_role = RoleUser | RoleSystem | RoleAssistant | RoleTool | RoleOther

text \<open>
  An OpenAI chat message. An absent \<open>tool_calls\<close> is the empty list (the code treats both
  alike); \<open>reasoning_content\<close> is \<open>None\<close> when it is not a string.
\<close>

record openai_message =
  msg_role :: openai_role
  msg_content :: js_content
  msg_tool_calls :: "tool_call list"
  msg_thoughtSignature :: "string option"
  msg_reasoning_content :: "string option"
  msg_tool_call_id :: string

text \<open>
  The data-URI test \<open>/^data:image\/(\w+);base64,(.+)$/\<close>: the word after \<open>data:image/\<close>
  is followed by a character that is not a word character, so only its longest reading can
  match; the payload runs to the end of the string and holds no line terminator (of
  these the line feed and the carriage return are representable here).
\<close>

definition is_word_char :: "char \<Rightarrow> bool" where
  "is_word_char c =
     (let n = (of_char c :: nat)
      in (48 \<le> n \<and> n \<le> 57) \<or> (65 \<le> n \<and> n \<le> 90) \<or> (97 \<le> n \<and> n \<le> 122) \<or> n = 95)"

definition is_line_terminator :: "char \<Rightarrow> bool" where
  "is_line_terminator c = (of_char c \<in> {10, 13 :: nat})"

definition match_data_uri :: "string \<Rightarrow> (string \<times> string) option" where
  "match_data_uri url =
     (if take 11 url = ''data:image/''
      then (let r = drop 11 url;
                w = takeWhile is_word_char r;
                r2 = dropWhile is_word_char r
            in if w \<noteq> [] \<and> take 8 r2 = '';base64,''
               then (let d = drop 8 r2
                     in if d \<noteq> [] \<and> \<not> list_ex is_line_terminator d then Some (w, d) else None)
               else None)
      else None)"

definition extract_item :: "string \<times> part list \<Rightarrow> content_item \<Rightarrow> string \<times> part list" where
  "extract_item result item =
     (case item of
        ItemText t \<Rightarrow> (fst result @ t, snd result)
      | ItemImageUrl u \<Rightarrow>
          (case match_data_uri (case u of None \<Rightarrow> [] | Some x \<Rightarrow> x) of
             Some (w, d) \<Rightarrow> (fst result, snd result @ [ImagePart (''image/'' @ w) d])
           | None \<Rightarrow> result)
      | ItemOther \<Rightarrow> result)"

definition extractImagesFromContent :: "js_content \<Rightarrow> string \<times> part list" where
  "extractImagesFromContent c =
     (case c of
        ContentString s \<Rightarrow> (s, [])
      | ContentArray items \<Rightarrow> foldl extract_item ([], []) items
      | ContentNone \<Rightarrow> ([], []))"

text \<open>
  \<open>handleAssistantMessage\<close>. Its local constants \<open>hasContent\<close>, \<open>toolCalls\<close> and \<open>parts\<close>
  are definitions of their own. \<open>message.content.trim()\<close> on an array content is a call of
  \<open>undefined\<close>: a \<open>TypeError\<close>, raised before anything is pushed.
\<close>

datatype conv_error = TypeError

definition openai_hasContent :: "openai_message \<Rightarrow> conv_error + bool" where
  "openai_hasContent message =
     (case msg_content message of
        ContentNone \<Rightarrow> Inr False
      | ContentString s \<Rightarrow> Inr (s \<noteq> [] \<and> trim s \<noteq> [])
      | ContentArray items \<Rightarrow> Inl TypeError)"

definition openai_toolCalls ::
  "env \<Rightarrow> openai_message \<Rightarrow> bool \<Rightarrow> string \<Rightarrow> string \<Rightarrow> bool \<Rightarrow> part list" where
  "openai_toolCalls e message enableThinking actualModelName sessionId hasTools =
     (let ctx = getSignatureContext e sessionId actualModelName hasTools
      in map (\<lambda>toolCall.
                let safeName = processToolName e (tc_function_name toolCall) sessionId actualModelName;
                    signature =
                      (if enableThinking
                       then js_or (js_or (js_or (tc_thoughtSignature toolCall) (toolSignature ctx))
                                         (msg_thoughtSignature message))
                                  (reasoningSignature ctx)
                       else None)
                in createFunctionCallPart (tc_id toolCall) safeName
                     (tc_function_arguments toolCall) signature)
             (msg_tool_calls message))"

definition openai_parts ::
  "env \<Rightarrow> openai_message \<Rightarrow> bool \<Rightarrow> string \<Rightarrow> string \<Rightarrow> bool \<Rightarrow> bool \<Rightarrow> part list" where
  "openai_parts e message enableThinking actualModelName sessionId hasTools hasContent =
     (let ctx = getSignatureContext e sessionId actualModelName hasTools;
          thought =
            (if enableThinking
             then (let reasoningText =
                         (case msg_reasoning_content message of
                            Some r \<Rightarrow> if r \<noteq> [] then r else '' ''
                          | None \<Rightarrow> '' '');
                       signature =
                         js_or (js_or (msg_thoughtSignature message) (reasoningSignature ctx))
                               (toolSignature ctx)
                   in if truthy signature then [createThoughtPart reasoningText signature] else [])
             else []);
          ps = thought @
            (if hasContent
             then [TextPart (trimEnd (case msg_content message of ContentString s \<Rightarrow> s | _ \<Rightarrow> []))]
             else [])
      in if \<not> enableThinking
         then (case ps of [] \<Rightarrow> [] | p # rest \<Rightarrow> delete_thoughtSignature p # rest)
         else ps)"

definition handleAssistantMessage ::
  "env \<Rightarrow> openai_message \<Rightarrow> message list \<Rightarrow> bool \<Rightarrow> string \<Rightarrow> string \<Rightarrow> bool
     \<Rightarrow> conv_error + message list" where
  "handleAssistantMessage e message antigravityMessages enableThinking actualModelName sessionId hasTools =
     (case openai_hasContent message of
        Inl err \<Rightarrow> Inl err
      | Inr hasContent \<Rightarrow>
          Inr (pushModelMessage
                 (openai_parts e message enableThinking actualModelName sessionId hasTools hasContent)
                 (openai_toolCalls e message enableThinking actualModelName sessionId hasTools)
                 hasContent antigravityMessages))"

definition handleToolCall :: "openai_message \<Rightarrow> message list \<Rightarrow> message list" where
  "handleToolCall message antigravityMessages =
     (let functionName = findFunctionNameById (msg_tool_call_id message) antigravityMessages
      in pushFunctionResponse (msg_tool_call_id message) functionName (msg_content message)
           antigravityMessages)"

text \<open>The loop of \<open>openaiMessageToAntigravity\<close>, with the list built so far as accumulator.\<close>

fun openai_loop ::
  "env \<Rightarrow> bool \<Rightarrow> string \<Rightarrow> string \<Rightarrow> bool \<Rightarrow> openai_message list \<Rightarrow> message list
     \<Rightarrow> conv_error + message list" where
  "openai_loop e enableThinking actualModelName sessionId hasTools [] acc = Inr acc"
| "openai_loop e enableThinking actualModelName sessionId hasTools (message # rest) acc =
     (if msg_role message = RoleUser \<or> msg_role message = RoleSystem
      then openai_loop e enableThinking actualModelName sessionId hasTools rest
             (pushUserMessage (extractImagesFromContent (msg_content message)) acc)
      else if msg_role message = RoleAssistant
      then (case handleAssistantMessage e message acc enableThinking actualModelName sessionId hasTools of
              Inl err \<Rightarrow> Inl err
            | Inr acc' \<Rightarrow> openai_loop e enableThinking actualModelName sessionId hasTools rest acc')
      else if msg_role message = RoleTool
      then openai_loop e enableThinking actualModelName sessionId hasTools rest
             (handleToolCall message acc)
      else openai_loop e enableThinking actualModelName sessionId hasTools rest acc)"

definition openaiMessageToAntigravity ::
  "env \<Rightarrow> openai_message list \<Rightarrow> bool \<Rightarrow> string \<Rightarrow> string \<Rightarrow> bool \<Rightarrow> conv_error + message list" where
  "openaiMessageToAntigravity e openaiMessages enableThinking actualModelName sessionId hasTools =
     openai_loop e enableThinking actualModelName sessionId hasTools openaiMessages []"

section \<open>Claude converter\<close>

record claude_source =
  src_type :: string
  src_media_type :: "string option"
  src_data :: "string option"

datatype tool_result_block = ResultText string | ResultOther

datatype tool_result_content =
    ResultNone
  | ResultString string
  | ResultArray "tool_result_block list"

text \<open>
  A content block of a Claude message. A \<open>tool_use\<close> block carries its id, its name, the
  text \<open>JSON.stringify(item.input || {})\<close> and its optional signature.
\<close>

datatype claude_item =
    ClaudeText "string option"
  | ClaudeThinking "string option"
  | ClaudeToolUse string string string "string option"
  | ClaudeImage "claude_source option"
  | ClaudeToolResult string tool_result_content
  | ClaudeOther

datatype claude_content =
    ClaudeNone
  | ClaudeString string
  | ClaudeArray "claude_item list"

datatype claude_role = ClaudeUser | ClaudeAssistant | ClaudeOtherRole

record claude_message =
  cl_role :: claude_role
  cl_content :: claude_content

definition extract_claude_item :: "string \<times> part list \<Rightarrow> claude_item \<Rightarrow> string \<times> part list" where
  "extract_claude_item result item =
     (case item of
        ClaudeText t \<Rightarrow> (fst result @ (case t of None \<Rightarrow> [] | Some x \<Rightarrow> x), snd result)
      | ClaudeImage source \<Rightarrow>
          (case source of
             None \<Rightarrow> result
           | Some src \<Rightarrow>
               (case src_data src of
                  None \<Rightarrow> result
                | Some d \<Rightarrow>
                    if src_type src = ''base64'' \<and> d \<noteq> []
                    then (fst result,
                          snd result @
                            [ImagePart (case src_media_type src of
                                          None \<Rightarrow> ''image/png''
                                        | Some mt \<Rightarrow> if mt \<noteq> [] then mt else ''image/png'')
                                       d])
                    else result))
      | _ \<Rightarrow> result)"

definition extractImagesFromClaudeContent :: "claude_content \<Rightarrow> string \<times> part list" where
  "extractImagesFromClaudeContent c =
     (case c of
        ClaudeString s \<Rightarrow> (s, [])
      | ClaudeArray items \<Rightarrow> foldl extract_claude_item ([], []) items
      | ClaudeNone \<Rightarrow> ([], []))"

text \<open>
  The loop of \<open>handleClaudeAssistantMessage\<close> over the content blocks updates three local
  variables: \<open>textContent\<close>, \<open>toolCalls\<close> and \<open>messageSignature\<close>.
\<close>

record claude_scan =
  textContent :: string
  scanToolCalls :: "part list"
  messageSignature :: "string option"

definition claude_assistant_item ::
  "env \<Rightarrow> bool \<Rightarrow> string \<Rightarrow> string \<Rightarrow> signature_context \<Rightarrow> claude_scan \<Rightarrow> claude_item \<Rightarrow> claude_scan" where
  "claude_assistant_item e enableThinking actualModelName sessionId ctx st item =
     (case item of
        ClaudeText t \<Rightarrow> st \<lparr> textContent := textContent st @ (case t of None \<Rightarrow> [] | Some x \<Rightarrow> x) \<rparr>
      | ClaudeThinking sg \<Rightarrow>
          if \<not> truthy (messageSignature st) \<and> truthy sg then st \<lparr> messageSignature := sg \<rparr> else st
      | ClaudeToolUse i name input sg \<Rightarrow>
          (let safeName = processToolName e name sessionId actualModelName;
               signature =
                 (if enableThinking
                  then js_or (js_or sg (toolSignature ctx)) (reasoningSignature ctx)
                  else None)
           in st \<lparr> scanToolCalls :=
                     scanToolCalls st @ [createFunctionCallPart i safeName (ArgString input) signature] \<rparr>)
      | _ \<Rightarrow> st)"

definition claude_assistant_scan ::
  "env \<Rightarrow> claude_message \<Rightarrow> bool \<Rightarrow> string \<Rightarrow> string \<Rightarrow> bool \<Rightarrow> claude_scan" where
  "claude_assistant_scan e message enableThinking actualModelName sessionId hasTools =
     (let ctx = getSignatureContext e sessionId actualModelName hasTools;
          init = \<lparr> textContent = [], scanToolCalls = [], messageSignature = None \<rparr>
      in case cl_content message of
           ClaudeString s \<Rightarrow> init \<lparr> textContent := s \<rparr>
         | ClaudeArray items \<Rightarrow>
             foldl (claude_assistant_item e enableThinking actualModelName sessionId ctx) init items
         | ClaudeNone \<Rightarrow> init)"

definition claude_parts ::
  "env \<Rightarrow> claude_message \<Rightarrow> bool \<Rightarrow> string \<Rightarrow> string \<Rightarrow> bool \<Rightarrow> part list" where
  "claude_parts e message enableThinking actualModelName sessionId hasTools =
     (let ctx = getSignatureContext e sessionId actualModelName hasTools;
          st = claude_assistant_scan e message enableThinking actualModelName sessionId hasTools;
          hasContent = (textContent st \<noteq> [] \<and> trim (textContent st) \<noteq> []);
          thought =
            (if enableThinking
             then (let signature =
                         js_or (js_or (messageSignature st) (reasoningSignature ctx)) (toolSignature ctx)
                   in if truthy signature then [createThoughtPart '' '' signature] else [])
             else []);
          ps = thought @ (if hasContent then [TextPart (trimEnd (textContent st))] else [])
      in if \<not> enableThinking
         then (case ps of [] \<Rightarrow> [] | p # rest \<Rightarrow> delete_thoughtSignature p # rest)
         else ps)"

definition handleClaudeAssistantMessage ::
  "env \<Rightarrow> claude_message \<Rightarrow> message list \<Rightarrow> bool \<Rightarrow> string \<Rightarrow> string \<Rightarrow> bool \<Rightarrow> message list" where
  "handleClaudeAssistantMessage e message antigravityMessages enableThinking actualModelName sessionId hasTools =
     (let st = claude_assistant_scan e message enableThinking actualModelName sessionId hasTools;
          hasContent = (textContent st \<noteq> [] \<and> trim (textContent st) \<noteq> [])
      in pushModelMessage
           (claude_parts e message enableThinking actualModelName sessionId hasTools)
           (scanToolCalls st) hasContent antigravityMessages)"

definition tool_result_text :: "tool_result_content \<Rightarrow> string" where
  "tool_result_text c =
     (case c of
        ResultString s \<Rightarrow> s
      | ResultArray blocks \<Rightarrow>
          concat (map (\<lambda>b. case b of ResultText t \<Rightarrow> t | ResultOther \<Rightarrow> [])
                      (filter (\<lambda>b. case b of ResultText t \<Rightarrow> True | ResultOther \<Rightarrow> False) blocks))
      | ResultNone \<Rightarrow> [])"

definition claude_tool_result_item :: "message list \<Rightarrow> claude_item \<Rightarrow> message list" where
  "claude_tool_result_item antigravityMessages item =
     (case item of
        ClaudeToolResult toolUseId c \<Rightarrow>
          (let functionName = findFunctionNameById toolUseId antigravityMessages;
               resultContent = tool_result_text c
           in pushFunctionResponse toolUseId functionName (ContentString resultContent)
                antigravityMessages)
      | _ \<Rightarrow> antigravityMessages)"

definition handleClaudeToolResult :: "claude_message \<Rightarrow> message list \<Rightarrow> message list" where
  "handleClaudeToolResult message antigravityMessages =
     (case cl_content message of
        ClaudeArray items \<Rightarrow> foldl claude_tool_result_item antigravityMessages items
      | _ \<Rightarrow> antigravityMessages)"

definition is_tool_result :: "claude_item \<Rightarrow> bool" where
  "is_tool_result item = (case item of ClaudeToolResult i c \<Rightarrow> True | _ \<Rightarrow> False)"

definition claude_message_step ::
  "env \<Rightarrow> bool \<Rightarrow> string \<Rightarrow> string \<Rightarrow> bool \<Rightarrow> message list \<Rightarrow> claude_message \<Rightarrow> message list" where
  "claude_message_step e enableThinking actualModelName sessionId hasTools acc message =
     (if cl_role message = ClaudeUser
      then (if (case cl_content message of ClaudeArray items \<Rightarrow> list_ex is_tool_result items | _ \<Rightarrow> False)
            then handleClaudeToolResult message acc
            else pushUserMessage (extractImagesFromClaudeContent (cl_content message)) acc)
      else if cl_role message = ClaudeAssistant
      then handleClaudeAssistantMessage e message acc enableThinking actualModelName sessionId hasTools
      else acc)"

definition claudeMessageToAntigravity ::
  "env \<Rightarrow> claude_message list \<Rightarrow> bool \<Rightarrow> string \<Rightarrow> string \<Rightarrow> bool \<Rightarrow> message list" where
  "claudeMessageToAntigravity e claudeMessages enableThinking actualModelName sessionId hasTools =
     foldl (claude_message_step e enableThinking actualModelName sessionId hasTools) [] claudeMessages"

section \<open>Signature precedence, as the specification words it\<close>

text \<open>
  The vocabulary of the precedence rule: the first truthy signature of a list of
  candidates, and the four reads of the cache and of the fallback tables, each behind its
  policy switches. The converters are compared with these in the properties below.
\<close>

fun first_truthy :: "string option list \<Rightarrow> string option" where
  "first_truthy [] = None"
| "first_truthy (s # ss) = (if truthy s then s else first_truthy ss)"

definition cached_reasoning :: "env \<Rightarrow> string \<Rightarrow> string \<Rightarrow> string option" where
  "cached_reasoning e sessionId model =
     (if useCachedSignature e then getReasoningSignature e sessionId model else None)"

definition fallback_reasoning :: "env \<Rightarrow> string \<Rightarrow> string option" where
  "fallback_reasoning e model =
     (if useFallbackSignature e then getThoughtSignatureForModel e model else None)"

definition cached_tool :: "env \<Rightarrow> string \<Rightarrow> string \<Rightarrow> bool \<Rightarrow> string option" where
  "cached_tool e sessionId model hasTools =
     (if useCachedSignature e \<and> \<not> (cacheOnlyToolSignatures e \<and> \<not> hasTools)
      then getToolSignature e sessionId model else None)"

definition fallback_tool :: "env \<Rightarrow> string \<Rightarrow> bool \<Rightarrow> string option" where
  "fallback_tool e model hasTools =
     (if useFallbackSignature e \<and> \<not> (cacheOnlyToolSignatures e \<and> \<not> hasTools)
      then getToolSignatureForModel e model else None)"

text \<open>The content blocks of a Claude message and the signatures they carry, in order.\<close>

fun claude_items :: "claude_content \<Rightarrow> claude_item list" where
  "claude_items (ClaudeArray items) = items"
| "claude_items c = []"

fun thinking_signatures :: "claude_item list \<Rightarrow> string option list" where
  "thinking_signatures [] = []"
| "thinking_signatures (ClaudeThinking sg # items) = sg # thinking_signatures items"
| "thinking_signatures (item # items) = thinking_signatures items"

fun tool_use_signatures :: "claude_item list \<Rightarrow> string option list" where
  "tool_use_signatures [] = []"
| "tool_use_signatures (ClaudeToolUse i n inp sg # items) = sg # tool_use_signatures items"
| "tool_use_signatures (item # items) = tool_use_signatures items"

section \<open>Upstream error handling\<close>

text \<open>
  \<open>handleApiError\<close> reads the status and the body of the upstream error through
  \<open>getUpstreamStatus\<close> and \<open>readUpstreamErrorBody\<close>, tests the body with
  \<open>isCallerDoesNotHavePermission\<close>, and always throws what \<open>createApiError\<close> returns
  for a message, the status and the body. These four functions belong to other modules
  and are parameters of the model. The three message templates are
  \<open>ContextExceeded body\<close> for the text that reports the model's context limit,
  \<open>AccountDisabled body\<close> for the text that reports the disabled account, and
  \<open>RequestFailed status body\<close> for the generic text; each embeds the body.
  The state records the calls made to the collaborators: the tokens handed to
  \<open>tokenManager.disableCurrentToken\<close>, in order, and the raw responses handed to
  \<open>dumpFinalRawResponse\<close> under a dump id.
\<close>

datatype api_message =
    ContextExceeded string
  | AccountDisabled string
  | RequestFailed "int option" string

record ('e, 'x) upstream =
  getUpstreamStatus :: "'e \<Rightarrow> int option"
  readUpstreamErrorBody :: "'e \<Rightarrow> string"
  isCallerDoesNotHavePermission :: "string \<Rightarrow> bool"
  createApiError :: "api_message \<Rightarrow> int option \<Rightarrow> string \<Rightarrow> 'x"

record 'tok api_state =
  disabledTokens :: "'tok list"
  dumpedResponses :: "(string \<times> string) list"

text \<open>The result is the thrown value and the state the function leaves.\<close>

definition handleApiError ::
  "('e, 'x) upstream \<Rightarrow> 'e \<Rightarrow> 'tok \<Rightarrow> string option \<Rightarrow> 'tok api_state \<Rightarrow> 'x \<times> 'tok api_state" where
  "handleApiError up error token dumpId st =
     (let status = getUpstreamStatus up error;
          errorBody = readUpstreamErrorBody up error;
          st1 = (case dumpId of
                   Some d \<Rightarrow>
                     if d \<noteq> [] then st \<lparr> dumpedResponses := dumpedResponses st @ [(d, errorBody)] \<rparr>
                     else st
                 | None \<Rightarrow> st)
      in if status = Some 403
         then (if isCallerDoesNotHavePermission up errorBody
               then (createApiError up (ContextExceeded errorBody) status errorBody, st1)
               else (createApiError up (AccountDisabled errorBody) status errorBody,
                     st1 \<lparr> disabledTokens := disabledTokens st1 @ [token] \<rparr>))
         else (createApiError up (RequestFailed status errorBody) status errorBody, st1))"

section \<open>Transport: bytes and strings\<close>

text \<open>
  A \<open>Buffer\<close> is a list of bytes. A JavaScript string of the transport is the list of its
  Unicode code points. \<open>ascii\<close> and \<open>ascii_bytes\<close> write string and byte literals.
\<close>

type_synonym byte = "8 word"
type_synonym jsstring = "nat list"

definition ascii :: "string \<Rightarrow> jsstring" where
  "ascii s = map of_char s"

definition ascii_bytes :: "string \<Rightarrow> byte list" where
  "ascii_bytes s = map (\<lambda>c. of_nat (of_char c)) s"

definition CRLF :: jsstring where
  "CRLF = [13, 10]"

text \<open>
  \<open>buf.toString()\<close> decodes UTF-8. The decoder is the one of the Encoding Standard, one
  byte at a time: an ill-formed or truncated sequence yields U+FFFD, and the byte that
  broke a sequence is decoded again as the start of the next one.
\<close>

record utf8_decoder =
  code_point :: nat
  bytes_seen :: nat
  bytes_needed :: nat
  lower_boundary :: nat
  upper_boundary :: nat

definition utf8_reset :: utf8_decoder where
  "utf8_reset =
     \<lparr> code_point = 0, bytes_seen = 0, bytes_needed = 0,
       lower_boundary = 0x80, upper_boundary = 0xBF \<rparr>"

definition utf8_lead :: "nat \<Rightarrow> utf8_decoder \<times> jsstring" where
  "utf8_lead b =
     (if b \<le> 0x7F then (utf8_reset, [b])
      else if 0xC2 \<le> b \<and> b \<le> 0xDF
      then (utf8_reset \<lparr> bytes_needed := 1, code_point := b mod 32 \<rparr>, [])
      else if 0xE0 \<le> b \<and> b \<le> 0xEF
      then (utf8_reset \<lparr> bytes_needed := 2, code_point := b mod 16,
                          lower_boundary := (if b = 0xE0 then 0xA0 else 0x80),
                          upper_boundary := (if b = 0xED then 0x9F else 0xBF) \<rparr>, [])
      else if 0xF0 \<le> b \<and> b \<le> 0xF4
      then (utf8_reset \<lparr> bytes_needed := 3, code_point := b mod 8,
                          lower_boundary := (if b = 0xF0 then 0x90 else 0x80),
                          upper_boundary := (if b = 0xF4 then 0x8F else 0xBF) \<rparr>, [])
      else (utf8_reset, [0xFFFD]))"

definition utf8_step :: "utf8_decoder \<Rightarrow> byte \<Rightarrow> utf8_decoder \<times> jsstring" where
  "utf8_step d byte =
     (let b = unat byte
      in if bytes_needed d = 0 then utf8_lead b
         else if b < lower_boundary d \<or> upper_boundary d < b
         then (fst (utf8_lead b), 0xFFFD # snd (utf8_lead b))
         else (let cp = code_point d * 64 + b mod 64;
                   seen = bytes_seen d + 1
               in if seen \<noteq> bytes_needed d
                  then (d \<lparr> code_point := cp, bytes_seen := seen,
                            lower_boundary := 0x80, upper_boundary := 0xBF \<rparr>, [])
                  else (utf8_reset, [cp])))"

fun utf8_run :: "utf8_decoder \<Rightarrow> byte list \<Rightarrow> jsstring" where
  "utf8_run d [] = (if bytes_needed d \<noteq> 0 then [0xFFFD] else [])"
| "utf8_run d (b # bs) = snd (utf8_step d b) @ utf8_run (fst (utf8_step d b)) bs"

definition buffer_toString :: "byte list \<Rightarrow> jsstring" where
  "buffer_toString buf = utf8_run utf8_reset buf"

text \<open>
  \<open>Buffer.from(string)\<close> encodes UTF-8; a lone surrogate is encoded as U+FFFD.
\<close>

definition utf8_encode :: "nat \<Rightarrow> byte list" where
  "utf8_encode c =
     (let cp = (if 0xD800 \<le> c \<and> c \<le> 0xDFFF then 0xFFFD else c)
      in if cp < 0x80 then [of_nat cp]
         else if cp < 0x800 then [of_nat (0xC0 + cp div 64), of_nat (0x80 + cp mod 64)]
         else if cp < 0x10000
         then [of_nat (0xE0 + cp div 4096), of_nat (0x80 + cp div 64 mod 64),
               of_nat (0x80 + cp mod 64)]
         else [of_nat (0xF0 + cp div 262144), of_nat (0x80 + cp div 4096 mod 64),
               of_nat (0x80 + cp div 64 mod 64), of_nat (0x80 + cp mod 64)])"

definition buffer_from :: "jsstring \<Rightarrow> byte list" where
  "buffer_from s = concat (map utf8_encode s)"

section \<open>String operations of the response parser\<close>

text \<open>\<open>s.indexOf(pat)\<close>: the first position where \<open>pat\<close> occurs, \<open>None\<close> for \<open>-1\<close>.\<close>

fun indexOf :: "'a list \<Rightarrow> 'a list \<Rightarrow> nat option" where
  "indexOf [] pat = (if pat = [] then Some 0 else None)"
| "indexOf (c # cs) pat =
     (if take (length pat) (c # cs) = pat then Some 0 else map_option Suc (indexOf cs pat))"

text \<open>
  \<open>s.split(sep)\<close> for a non-empty separator: the pieces between the occurrences of \<open>sep\<close>
  found from left to right, each search starting behind the previous occurrence.
  \<open>cur\<close> holds the piece being read, reversed.
\<close>

function split_from :: "'a list \<Rightarrow> 'a list \<Rightarrow> 'a list \<Rightarrow> 'a list list" where
  "split_from sep cur s =
     (if s = [] then [rev cur]
      else if sep \<noteq> [] \<and> take (length sep) s = sep
      then rev cur # split_from sep [] (drop (length sep) s)
      else split_from sep (hd s # cur) (tl s))"
  by pat_completeness auto
termination
  by (relation "measure (\<lambda>(sep, cur, s). length s)") auto

definition split :: "'a list \<Rightarrow> 'a list \<Rightarrow> 'a list list" where
  "split s sep = split_from sep [] s"

fun join :: "'a list list \<Rightarrow> 'a list \<Rightarrow> 'a list" where
  "join [] sep = []"
| "join [x] sep = x"
| "join (x # y # ys) sep = x @ sep @ join (y # ys) sep"

text \<open>
  The status line test \<open>/HTTP\/[\d.]+ (\d+) (.+)/\<close>, searched from the left. Each greedy
  group is followed by a character outside its class, so only its longest reading can
  match; \<open>.\<close> stops at a line terminator. The result is the pair of the two groups.
\<close>

definition is_digit :: "nat \<Rightarrow> bool" where
  "is_digit c = (48 \<le> c \<and> c \<le> 57)"

definition is_version_char :: "nat \<Rightarrow> bool" where
  "is_version_char c = (is_digit c \<or> c = 46)"

definition is_dot_char :: "nat \<Rightarrow> bool" where
  "is_dot_char c = (c \<noteq> 10 \<and> c \<noteq> 13 \<and> c \<noteq> 0x2028 \<and> c \<noteq> 0x2029)"

definition status_match_here :: "jsstring \<Rightarrow> (jsstring \<times> jsstring) option" where
  "status_match_here s =
     (if take 5 s = ascii ''HTTP/''
      then (let r1 = drop 5 s;
                version = takeWhile is_version_char r1;
                r2 = dropWhile is_version_char r1
            in if version \<noteq> [] \<and> take 1 r2 = [32]
               then (let r3 = drop 1 r2;
                         digits = takeWhile is_digit r3;
                         r4 = dropWhile is_digit r3
                     in if digits \<noteq> [] \<and> take 1 r4 = [32]
                        then (let reason = takeWhile is_dot_char (drop 1 r4)
                              in if reason \<noteq> [] then Some (digits, reason) else None)
                        else None)
               else None)
      else None)"

fun status_match :: "jsstring \<Rightarrow> (jsstring \<times> jsstring) option" where
  "status_match [] = status_match_here []"
| "status_match (c # cs) =
     (case status_match_here (c # cs) of
        Some r \<Rightarrow> Some r
      | None \<Rightarrow> status_match cs)"

text \<open>\<open>parseInt\<close> of a run of decimal digits.\<close>

definition parseInt_digits :: "jsstring \<Rightarrow> nat" where
  "parseInt_digits ds = foldl (\<lambda>n d. 10 * n + (d - 48)) 0 ds"

text \<open>The decimal text of a number, as a template literal prints it.\<close>

function show_nat :: "nat \<Rightarrow> jsstring" where
  "show_nat n = (if n < 10 then [48 + n] else show_nat (n div 10) @ [48 + n mod 10])"
  by pat_completeness auto
termination
  by (relation "measure id") auto

definition show_int :: "int \<Rightarrow> jsstring" where
  "show_int i = (if i < 0 then 45 # show_nat (nat (- i)) else show_nat (nat i))"

section \<open>Transport: the response parser of \<open>FingerprintRequester.request\<close>\<close>

text \<open>
  The values \<open>JSON.parse\<close> returns. The payload of a number is never inspected.
\<close>

datatype json =
    JNull
  | JBool bool
  | JNum int
  | JStr jsstring
  | JArr "json list"
  | JObj "(jsstring \<times> json) list"

text \<open>
  Library functions the handlers call and whose code is not part of the module:
  \<open>JSON.parse\<close> (\<open>None\<close> when it throws), \<open>zlib.gunzip\<close> (the error message or the inflated
  bytes), \<open>String.prototype.toLowerCase\<close>, and the string conversion of a JSON value that is
  not a string.
\<close>

record js_lib =
  JSON_parse :: "jsstring \<Rightarrow> json option"
  gunzip :: "byte list \<Rightarrow> jsstring + byte list"
  toLowerCase :: "jsstring \<Rightarrow> jsstring"
  String_of :: "json \<Rightarrow> jsstring"

text \<open>
  The fields of the request configuration that the handlers read. \<open>responseType\<close> is
  compared with \<open>'json'\<close> only.
\<close>

record request_config =
  skipGzipDecompress :: bool
  responseType_json :: bool
  validateStatus :: "nat \<Rightarrow> bool"

text \<open>
  The local variables of the promise body that the \<open>stdout\<close> handler reads and writes.
  \<open>responseHeaders\<close> is an object: an association list in insertion order. The progress
  callback, the byte counter it reports, and the call of \<open>validateStatus\<close> whose result
  the handler discards do not touch these variables and are left out, as are the timer
  and the abort signal, which settle the promise on their own.
\<close>

record parser =
  headersParsed :: bool
  responseHeaders :: "(jsstring \<times> jsstring) list"
  responseStatus :: nat
  responseStatusText :: jsstring
  headerBuffer :: jsstring
  bodyChunks :: "byte list list"

definition parser_init :: parser where
  "parser_init =
     \<lparr> headersParsed = False, responseHeaders = [], responseStatus = 200,
       responseStatusText = ascii ''OK'', headerBuffer = [], bodyChunks = [] \<rparr>"

text \<open>\<open>obj[key] = value\<close> on an object kept as an association list.\<close>

fun assign :: "('k \<times> 'v) list \<Rightarrow> 'k \<Rightarrow> 'v \<Rightarrow> ('k \<times> 'v) list" where
  "assign [] k v = [(k, v)]"
| "assign ((k', v') # kvs) k v = (if k' = k then (k, v) # kvs else (k', v') # assign kvs k v)"

text \<open>One round of the loop over the header lines.\<close>

definition header_line :: "js_lib \<Rightarrow> (jsstring \<times> jsstring) list \<Rightarrow> jsstring \<Rightarrow> (jsstring \<times> jsstring) list" where
  "header_line lib headers line =
     (case split line (ascii '': '') of
        [] \<Rightarrow> headers
      | key # valueParts \<Rightarrow>
          if key \<noteq> [] then assign headers (toLowerCase lib key) (join valueParts (ascii '': ''))
          else headers)"

text \<open>
  \<open>proc.stdout.on('data', chunk)\<close>. \<open>headers_found\<close> is the branch taken when the
  accumulated header buffer \<open>hb\<close> holds the boundary, at \<open>headerEndIndex\<close>.
\<close>

definition headers_found :: "js_lib \<Rightarrow> parser \<Rightarrow> jsstring \<Rightarrow> nat \<Rightarrow> parser" where
  "headers_found lib st hb headerEndIndex =
     (let headerPart = take headerEndIndex hb;
          bodyPart = drop (headerEndIndex + 4) hb;
          lines = split headerPart CRLF;
          statusMatch = status_match (hd lines)
      in st \<lparr> headerBuffer := hb,
              responseStatus :=
                (case statusMatch of Some m \<Rightarrow> parseInt_digits (fst m) | None \<Rightarrow> 200),
              responseStatusText :=
                (case statusMatch of Some m \<Rightarrow> snd m | None \<Rightarrow> ascii ''OK''),
              responseHeaders := foldl (header_line lib) (responseHeaders st) (tl lines),
              headersParsed := True,
              bodyChunks :=
                (if bodyPart \<noteq> [] then bodyChunks st @ [buffer_from bodyPart]
                 else bodyChunks st) \<rparr>)"

definition on_stdout_data :: "js_lib \<Rightarrow> parser \<Rightarrow> byte list \<Rightarrow> parser" where
  "on_stdout_data lib st chunk =
     (if \<not> headersParsed st
      then (let hb = headerBuffer st @ buffer_toString chunk
            in case indexOf hb (CRLF @ CRLF) of
                 None \<Rightarrow> st \<lparr> headerBuffer := hb \<rparr>
               | Some headerEndIndex \<Rightarrow> headers_found lib st hb headerEndIndex)
      else st \<lparr> bodyChunks := bodyChunks st @ [chunk] \<rparr>)"

text \<open>
  What the promise settles with. \<open>data\<close> is the body text, or the parsed value when the
  response type is JSON and the text parses.
\<close>

datatype response_data = DataText jsstring | DataJson json

record response =
  data :: response_data
  status :: nat
  statusText :: jsstring
  headers :: "(jsstring \<times> jsstring) list"

datatype error_code =
    ECONNABORTED
  | ERR_CONFIG
  | ERR_NETWORK
  | ERR_BAD_RESPONSE
  | ERR_BAD_REQUEST

text \<open>
  The rejection value: \<open>message\<close>, \<open>code\<close>, and the fields set on some paths only
  (\<open>errorType\<close> and \<open>exitCode\<close> after a failed exit, \<open>response\<close> after a refused status).
  The exit code is \<open>None\<close> for \<open>null\<close> (the process was killed by a signal).
\<close>

record transport_error =
  err_message :: jsstring
  err_code :: error_code
  err_errorType :: "json option"
  err_exitCode :: "int option option"
  err_response :: "response option"

text \<open>
  \<open>TypeErrorInHandler\<close>: the \<open>close\<close> handler itself threw outside its \<open>try\<close> block, so
  the promise of \<open>request\<close> is never settled by it.
\<close>

datatype outcome =
    Resolved response
  | Rejected transport_error
  | TypeErrorInHandler

text \<open>Reading a property of a JSON value: a \<open>TypeError\<close> on \<open>null\<close>, \<open>undefined\<close> when absent.\<close>

datatype property = PropertyTypeError | Undefined | Value json

definition get_property :: "json \<Rightarrow> jsstring \<Rightarrow> property" where
  "get_property v key =
     (case v of
        JNull \<Rightarrow> PropertyTypeError
      | JObj kvs \<Rightarrow> (case map_of kvs key of Some x \<Rightarrow> Value x | None \<Rightarrow> Undefined)
      | _ \<Rightarrow> Undefined)"

text \<open>The message \<open>new Error(x)\<close> gets: empty for \<open>undefined\<close>, else the string of \<open>x\<close>.\<close>

definition error_message :: "js_lib \<Rightarrow> property \<Rightarrow> jsstring" where
  "error_message lib x =
     (case x of
        Value (JStr s) \<Rightarrow> s
      | Value v \<Rightarrow> String_of lib v
      | _ \<Rightarrow> [])"

definition show_exit_code :: "int option \<Rightarrow> jsstring" where
  "show_exit_code code = (case code of None \<Rightarrow> ascii ''null'' | Some c \<Rightarrow> show_int c)"

text \<open>The \<open>errorInfo\<close> of the failure path.\<close>

definition errorInfo :: "js_lib \<Rightarrow> int option \<Rightarrow> jsstring \<Rightarrow> json" where
  "errorInfo lib code stderrData =
     (let dflt = [(ascii ''error'', JStr (ascii ''Process exited with code '' @ show_exit_code code)),
                  (ascii ''error_type'', JStr (ascii ''UNKNOWN_ERROR''))]
      in if stderrData \<noteq> []
         then (case JSON_parse lib stderrData of
                 Some v \<Rightarrow> v
               | None \<Rightarrow> JObj (assign dflt (ascii ''error'') (JStr stderrData)))
         else JObj dflt)"

text \<open>
  \<open>proc.on('close', code)\<close>, from the parser's variables and the text collected from the
  error stream. The second component is the list of messages passed to \<open>console.warn\<close>.
\<close>

definition on_close ::
  "js_lib \<Rightarrow> request_config \<Rightarrow> parser \<Rightarrow> jsstring \<Rightarrow> int option \<Rightarrow> outcome \<times> jsstring list" where
  "on_close lib config st stderrData code =
     (if code \<noteq> Some 0
      then (let info = errorInfo lib code stderrData
            in case get_property info (ascii ''error'') of
                 PropertyTypeError \<Rightarrow> (TypeErrorInHandler, [])
               | msg \<Rightarrow>
                   (Rejected
                      \<lparr> err_message = error_message lib msg,
                        err_code = (if code = Some 3 then ECONNABORTED
                                    else if code = Some 4 then ERR_CONFIG else ERR_NETWORK),
                        err_errorType =
                          (case get_property info (ascii ''error_type'') of
                             Value t \<Rightarrow> Some t | _ \<Rightarrow> None),
                        err_exitCode = Some code,
                        err_response = None \<rparr>, []))
      else (let bodyBuffer = concat (bodyChunks st);
                contentEncoding =
                  (case map_of (responseHeaders st) (ascii ''content-encoding'') of
                     Some v \<Rightarrow> v | None \<Rightarrow> []);
                inflated =
                  (if \<not> skipGzipDecompress config \<and>
                      indexOf (toLowerCase lib contentEncoding) (ascii ''gzip'') \<noteq> None
                   then (case gunzip lib bodyBuffer of
                           Inr buf \<Rightarrow> (buf, [])
                         | Inl gzipErr \<Rightarrow>
                             (bodyBuffer,
                              [ascii ''Gzip decompression failed, using raw data: '' @ gzipErr]))
                   else (bodyBuffer, []));
                body = buffer_toString (fst inflated);
                parsedData =
                  (if responseType_json config
                   then (case JSON_parse lib body of Some v \<Rightarrow> DataJson v | None \<Rightarrow> DataText body)
                   else DataText body);
                resp = \<lparr> data = parsedData, status = responseStatus st,
                         statusText = responseStatusText st, headers = responseHeaders st \<rparr>
            in if \<not> validateStatus config (responseStatus st)
               then (Rejected
                       \<lparr> err_message =
                           ascii ''Request failed with status code '' @ show_nat (responseStatus st),
                         err_code = (if responseStatus st \<ge> 500 then ERR_BAD_RESPONSE
                                     else ERR_BAD_REQUEST),
                         err_errorType = None, err_exitCode = None,
                         err_response = Some resp \<rparr>, snd inflated)
               else (Resolved resp, snd inflated)))"

text \<open>
  A whole exchange: the chunks of the output stream in the order received, then the
  \<open>close\<close> event with the text of the error stream and the exit code.
\<close>

definition request ::
  "js_lib \<Rightarrow> request_config \<Rightarrow> byte list list \<Rightarrow> jsstring \<Rightarrow> int option \<Rightarrow> outcome \<times> jsstring list" where
  "request lib config chunks stderrData code =
     on_close lib config (foldl (on_stdout_data lib) parser_init chunks) stderrData code"

section \<open>Example inputs\<close>

text \<open>
  A configuration with a cached tool signature and both fallback signatures but no cached
  reasoning signature, the same with cache and fallback switched off, and builders for
  OpenAI tool calls and assistant messages.
\<close>

definition example_env :: env where
  "example_env =
     \<lparr> useCachedSignature = True, useFallbackSignature = True, cacheOnlyToolSignatures = False,
       getReasoningSignature = (\<lambda>sessionId model. None),
       getToolSignature = (\<lambda>sessionId model. Some ''T-cached''),
       getThoughtSignatureForModel = (\<lambda>model. Some ''R-fallback''),
       getToolSignatureForModel = (\<lambda>model. Some ''T-fallback''),
       sanitizeToolName = (\<lambda>name. name) \<rparr>"

definition example_env_off :: env where
  "example_env_off =
     example_env \<lparr> useCachedSignature := False, useFallbackSignature := False \<rparr>"

definition example_call :: "string \<Rightarrow> string \<Rightarrow> string option \<Rightarrow> tool_call" where
  "example_call i name sg =
     \<lparr> tc_id = i, tc_function_name = name, tc_function_arguments = ArgString ''{}'',
       tc_thoughtSignature = sg \<rparr>"

definition example_assistant ::
  "js_content \<Rightarrow> tool_call list \<Rightarrow> string option \<Rightarrow> openai_message" where
  "example_assistant c calls sg =
     \<lparr> msg_role = RoleAssistant, msg_content = c, msg_tool_calls = calls,
       msg_thoughtSignature = sg, msg_reasoning_content = None, msg_tool_call_id = [] \<rparr>"

text \<open>
  A library for inputs that are neither JSON texts nor gzip data: \<open>JSON.parse\<close> fails,
  and \<open>gunzip\<close> fails as zlib does on such bytes, with \<open>incorrect header check\<close> when
  the first two bytes are there and are not the gzip magic 1F 8B, and with
  \<open>unexpected end of file\<close> on the other inputs; of these the examples use only the two
  bytes 1F 8B, where the input ends inside the gzip header. Its
  \<open>toLowerCase\<close> covers the ASCII letters. Then the default request configuration, two
  response heads, and readers of an upstream error given as the pair of its status and
  body, with an error constructor that keeps its three arguments.
\<close>

definition example_lib :: js_lib where
  "example_lib =
     \<lparr> JSON_parse = (\<lambda>s. None),
       gunzip = (\<lambda>buf. if 2 \<le> length buf \<and> take 2 buf \<noteq> [0x1F, 0x8B]
                      then Inl (ascii ''incorrect header check'')
                      else Inl (ascii ''unexpected end of file'')),
       toLowerCase = map (\<lambda>c. if 65 \<le> c \<and> c \<le> 90 then c + 32 else c),
       String_of = (\<lambda>v. ascii ''[object Object]'') \<rparr>"

definition example_config :: request_config where
  "example_config =
     \<lparr> skipGzipDecompress = False, responseType_json = False,
       validateStatus = (\<lambda>status. 200 \<le> status \<and> status < 300) \<rparr>"

definition example_head :: "byte list" where
  "example_head = ascii_bytes ''HTTP/1.1 200 OK'' @ [13, 10, 13, 10]"


definition example_upstream ::
  "(int \<times> string, api_message \<times> int option \<times> string) upstream" where
  "example_upstream =
     \<lparr> getUpstreamStatus = (\<lambda>error. Some (fst error)),
       readUpstreamErrorBody = snd,
       isCallerDoesNotHavePermission = (\<lambda>body. body = ''CALLER_DOES_NOT_HAVE_PERMISSION''),
       createApiError = (\<lambda>message status body. (message, status, body)) \<rparr>"

text \<open>
  An error-stream text that is a JSON object, and a library whose \<open>JSON.parse\<close> reads
  it (and fails on every other text).
\<close>

definition example_stderr :: jsstring where
  \<open>example_stderr = ascii ''{"error":"read timeout","error_type":"TIMEOUT"}''\<close>

definition example_json_lib :: js_lib where
  "example_json_lib =
     example_lib
       \<lparr> JSON_parse :=
           (\<lambda>s. if s = example_stderr
                then Some (JObj [(ascii ''error'', JStr (ascii ''read timeout'')),
                                 (ascii ''error_type'', JStr (ascii ''TIMEOUT''))])
                else None) \<rparr>"

section \<open>Properties of the converters\<close>

lemmas example_defs = example_env_def example_env_off_def example_call_def example_assistant_def

lemmas openai_defs =
  openaiMessageToAntigravity_def handleAssistantMessage_def openai_hasContent_def
  openai_parts_def openai_toolCalls_def getSignatureContext_def pushModelMessage_def
  createFunctionCallPart_def createThoughtPart_def processToolName_def js_or_def truthy_def
  trim_def trimEnd_def is_space_def Let_def

subsection \<open>The two branches of \<open>pushModelMessage\<close>\<close>

lemma pushModelMessage_merge:
  "msgs \<noteq> [] \<Longrightarrow> role (last msgs) = Model \<Longrightarrow> tcs \<noteq> [] \<Longrightarrow> \<not> hc \<Longrightarrow>
   pushModelMessage ps tcs hc msgs =
     butlast msgs @ [(last msgs) \<lparr> parts := parts (last msgs) @ tcs \<rparr>]"
  by (simp add: pushModelMessage_def)

lemma pushModelMessage_new:
  "\<not> (msgs \<noteq> [] \<and> role (last msgs) = Model \<and> tcs \<noteq> [] \<and> \<not> hc) \<Longrightarrow>
   pushModelMessage ps tcs hc msgs = msgs @ [\<lparr> role = Model, parts = ps @ tcs \<rparr>]"
  by (auto simp add: pushModelMessage_def)

lemma openai_toolCalls_all_calls:
  "list_all is_functionCall (openai_toolCalls e m th model sid ht)"
  by (simp add: openai_toolCalls_def createFunctionCallPart_def list_all_iff Let_def)

lemma claude_item_all_calls:
  "list_all is_functionCall (scanToolCalls st) \<Longrightarrow>
   list_all is_functionCall (scanToolCalls (claude_assistant_item e th model sid ctx st item))"
  by (cases item) (simp_all add: claude_assistant_item_def createFunctionCallPart_def Let_def)

lemma claude_fold_all_calls:
  "list_all is_functionCall (scanToolCalls st) \<Longrightarrow>
   list_all is_functionCall (scanToolCalls (foldl (claude_assistant_item e th model sid ctx) st items))"
  by (induction items arbitrary: st) (simp_all add: claude_item_all_calls)

lemma claude_scan_all_calls:
  "list_all is_functionCall
     (scanToolCalls (claude_assistant_scan e m th model sid ht))"
  by (cases "cl_content m") (simp_all add: claude_assistant_scan_def Let_def claude_fold_all_calls)

lemma functionCall_not_thought: "list_all is_functionCall ps \<Longrightarrow> \<not> list_ex is_thought ps"
proof (induction ps)
  case Nil
  then show ?case by simp
next
  case (Cons p ps)
  then show ?case by (cases p) simp_all
qed

subsection \<open>Properties of every part of the canonical messages\<close>

text \<open>
  A property \<open>Q\<close> of parts that holds of every part of every message is kept by the
  push functions when it holds of what they are given.
\<close>

lemma inv_butlast_last:
  assumes "msgs \<noteq> []" "list_all (\<lambda>m. list_all Q (parts m)) msgs" "list_all Q tcs"
  shows "list_all (\<lambda>m. list_all Q (parts m))
           (butlast msgs @ [(last msgs) \<lparr> parts := parts (last msgs) @ tcs \<rparr>])"
proof -
  have "list_all (\<lambda>m. list_all Q (parts m)) (butlast msgs)"
    using assms(2) by (auto simp: list_all_iff dest: in_set_butlastD)
  moreover have "list_all Q (parts (last msgs))"
    using assms(1,2) by (auto simp: list_all_iff)
  ultimately show ?thesis using assms(3) by simp
qed

lemma pushModelMessage_inv:
  assumes "list_all Q ps" "list_all Q tcs" "list_all (\<lambda>m. list_all Q (parts m)) msgs"
  shows "list_all (\<lambda>m. list_all Q (parts m)) (pushModelMessage ps tcs hc msgs)"
proof (cases "msgs \<noteq> [] \<and> role (last msgs) = Model \<and> tcs \<noteq> [] \<and> \<not> hc")
  case True
  then show ?thesis using assms inv_butlast_last [of msgs Q tcs]
    by (simp add: pushModelMessage_merge)
next
  case False
  then show ?thesis using assms by (simp add: pushModelMessage_new)
qed

lemma pushFunctionResponse_inv:
  assumes "Q (FunctionResponsePart i n c)" "list_all (\<lambda>m. list_all Q (parts m)) msgs"
  shows "list_all (\<lambda>m. list_all Q (parts m)) (pushFunctionResponse i n c msgs)"
  using assms inv_butlast_last [of msgs Q "[FunctionResponsePart i n c]"]
  by (simp add: pushFunctionResponse_def Let_def)

lemma pushUserMessage_inv:
  assumes "\<And>t. Q (TextPart t)" "list_all Q (snd ex)" "list_all (\<lambda>m. list_all Q (parts m)) msgs"
  shows "list_all (\<lambda>m. list_all Q (parts m)) (pushUserMessage ex msgs)"
  using assms by (simp add: pushUserMessage_def)

lemma extract_item_inv:
  assumes "\<And>m d. Q (ImagePart m d)" "list_all Q (snd acc)"
  shows "list_all Q (snd (extract_item acc item))"
  using assms by (cases item) (auto simp: extract_item_def split: option.splits)

lemma extract_fold_inv:
  assumes "\<And>m d. Q (ImagePart m d)" "list_all Q (snd acc)"
  shows "list_all Q (snd (foldl extract_item acc items))"
  using assms(2) by (induction items arbitrary: acc) (simp_all add: extract_item_inv assms(1))

lemma extractImagesFromContent_inv:
  assumes "\<And>m d. Q (ImagePart m d)"
  shows "list_all Q (snd (extractImagesFromContent c))"
  using extract_fold_inv [of Q "([], [])", OF assms]
  by (cases c) (simp_all add: extractImagesFromContent_def)

lemma extract_claude_item_inv:
  assumes "\<And>m d. Q (ImagePart m d)" "list_all Q (snd acc)"
  shows "list_all Q (snd (extract_claude_item acc item))"
  using assms by (cases item) (auto simp: extract_claude_item_def split: option.splits)

lemma extract_claude_fold_inv:
  assumes "\<And>m d. Q (ImagePart m d)" "list_all Q (snd acc)"
  shows "list_all Q (snd (foldl extract_claude_item acc items))"
  using assms(2) by (induction items arbitrary: acc) (simp_all add: extract_claude_item_inv assms(1))

lemma extractImagesFromClaudeContent_inv:
  assumes "\<And>m d. Q (ImagePart m d)"
  shows "list_all Q (snd (extractImagesFromClaudeContent c))"
  using extract_claude_fold_inv [of Q "([], [])", OF assms]
  by (cases c) (simp_all add: extractImagesFromClaudeContent_def)


subsection \<open>Conversion with thinking disabled\<close>

text \<open>
  With thinking disabled no part the converters build is a thought part or carries a
  \<open>thoughtSignature\<close>.
\<close>

lemma openai_parts_disabled:
  "list_all (\<lambda>p. \<not> is_thought p \<and> thoughtSignature_of p = None)
     (openai_parts e m False model sid ht hc)"
  by (simp add: openai_parts_def Let_def)

lemma openai_toolCalls_disabled:
  "list_all (\<lambda>p. \<not> is_thought p \<and> thoughtSignature_of p = None)
     (openai_toolCalls e m False model sid ht)"
  by (simp add: openai_toolCalls_def createFunctionCallPart_def truthy_def list_all_iff Let_def)

lemma handleAssistantMessage_disabled:
  assumes "handleAssistantMessage e m msgs False model sid ht = Inr out"
    and "list_all (\<lambda>m. list_all (\<lambda>p. \<not> is_thought p \<and> thoughtSignature_of p = None) (parts m)) msgs"
  shows "list_all (\<lambda>m. list_all (\<lambda>p. \<not> is_thought p \<and> thoughtSignature_of p = None) (parts m)) out"
  using assms
  by (auto simp: handleAssistantMessage_def split: sum.splits
           intro!: pushModelMessage_inv openai_parts_disabled openai_toolCalls_disabled)

lemma handleToolCall_disabled:
  assumes "list_all (\<lambda>m. list_all (\<lambda>p. \<not> is_thought p \<and> thoughtSignature_of p = None) (parts m)) msgs"
  shows "list_all (\<lambda>m. list_all (\<lambda>p. \<not> is_thought p \<and> thoughtSignature_of p = None) (parts m))
           (handleToolCall m msgs)"
  using assms by (auto simp: handleToolCall_def Let_def intro!: pushFunctionResponse_inv)

lemma openai_user_disabled:
  assumes "list_all (\<lambda>m. list_all (\<lambda>p. \<not> is_thought p \<and> thoughtSignature_of p = None) (parts m)) msgs"
  shows "list_all (\<lambda>m. list_all (\<lambda>p. \<not> is_thought p \<and> thoughtSignature_of p = None) (parts m))
           (pushUserMessage (extractImagesFromContent c) msgs)"
  using assms by (auto intro!: pushUserMessage_inv extractImagesFromContent_inv)

lemma openai_loop_disabled:
  assumes "openai_loop e False model sid ht ms acc = Inr out"
    and "list_all (\<lambda>m. list_all (\<lambda>p. \<not> is_thought p \<and> thoughtSignature_of p = None) (parts m)) acc"
  shows "list_all (\<lambda>m. list_all (\<lambda>p. \<not> is_thought p \<and> thoughtSignature_of p = None) (parts m)) out"
  using assms
proof (induction ms arbitrary: acc)
  case Nil
  then show ?case by simp
next
  case (Cons m ms)
  show ?case
  proof (cases "msg_role m")
    case RoleUser
    then show ?thesis using Cons.prems Cons.IH openai_user_disabled by simp
  next
    case RoleSystem
    then show ?thesis using Cons.prems Cons.IH openai_user_disabled by simp
  next
    case RoleAssistant
    then obtain acc' where a: "handleAssistantMessage e m acc False model sid ht = Inr acc'"
      and l: "openai_loop e False model sid ht ms acc' = Inr out"
      using Cons.prems(1) by (auto split: sum.splits)
    from handleAssistantMessage_disabled [OF a Cons.prems(2)] l Cons.IH
    show ?thesis by blast
  next
    case RoleTool
    then show ?thesis using Cons.prems Cons.IH handleToolCall_disabled by simp
  next
    case RoleOther
    then show ?thesis using Cons.prems Cons.IH by simp
  qed
qed

text \<open>The same for the Claude converter.\<close>

lemma claude_item_disabled:
  "list_all (\<lambda>p. \<not> is_thought p \<and> thoughtSignature_of p = None) (scanToolCalls st) \<Longrightarrow>
   list_all (\<lambda>p. \<not> is_thought p \<and> thoughtSignature_of p = None)
     (scanToolCalls (claude_assistant_item e False model sid ctx st item))"
  by (cases item)
     (simp_all add: claude_assistant_item_def createFunctionCallPart_def truthy_def Let_def)

lemma claude_fold_disabled:
  "list_all (\<lambda>p. \<not> is_thought p \<and> thoughtSignature_of p = None) (scanToolCalls st) \<Longrightarrow>
   list_all (\<lambda>p. \<not> is_thought p \<and> thoughtSignature_of p = None)
     (scanToolCalls (foldl (claude_assistant_item e False model sid ctx) st items))"
  by (induction items arbitrary: st) (simp_all add: claude_item_disabled)

lemma claude_scan_disabled:
  "list_all (\<lambda>p. \<not> is_thought p \<and> thoughtSignature_of p = None)
     (scanToolCalls (claude_assistant_scan e m False model sid ht))"
  by (cases "cl_content m") (simp_all add: claude_assistant_scan_def Let_def claude_fold_disabled)

lemma claude_parts_disabled:
  "list_all (\<lambda>p. \<not> is_thought p \<and> thoughtSignature_of p = None)
     (claude_parts e m False model sid ht)"
  by (simp add: claude_parts_def Let_def)

lemma handleClaudeAssistantMessage_disabled:
  assumes "list_all (\<lambda>m. list_all (\<lambda>p. \<not> is_thought p \<and> thoughtSignature_of p = None) (parts m)) msgs"
  shows "list_all (\<lambda>m. list_all (\<lambda>p. \<not> is_thought p \<and> thoughtSignature_of p = None) (parts m))
           (handleClaudeAssistantMessage e m msgs False model sid ht)"
  unfolding handleClaudeAssistantMessage_def Let_def
  by (rule pushModelMessage_inv [OF claude_parts_disabled claude_scan_disabled assms])

lemma claude_tool_result_item_disabled:
  assumes "list_all (\<lambda>m. list_all (\<lambda>p. \<not> is_thought p \<and> thoughtSignature_of p = None) (parts m)) msgs"
  shows "list_all (\<lambda>m. list_all (\<lambda>p. \<not> is_thought p \<and> thoughtSignature_of p = None) (parts m))
           (claude_tool_result_item msgs item)"
  using assms
  by (cases item) (auto simp: claude_tool_result_item_def Let_def intro!: pushFunctionResponse_inv)

lemma handleClaudeToolResult_disabled:
  assumes "list_all (\<lambda>m. list_all (\<lambda>p. \<not> is_thought p \<and> thoughtSignature_of p = None) (parts m)) msgs"
  shows "list_all (\<lambda>m. list_all (\<lambda>p. \<not> is_thought p \<and> thoughtSignature_of p = None) (parts m))
           (handleClaudeToolResult m msgs)"
proof -
  have "list_all (\<lambda>m. list_all (\<lambda>p. \<not> is_thought p \<and> thoughtSignature_of p = None) (parts m))
          (foldl claude_tool_result_item acc items)"
    if "list_all (\<lambda>m. list_all (\<lambda>p. \<not> is_thought p \<and> thoughtSignature_of p = None) (parts m)) acc"
    for acc items
    using that by (induction items arbitrary: acc) (simp_all add: claude_tool_result_item_disabled)
  then show ?thesis using assms
    by (cases "cl_content m") (simp_all add: handleClaudeToolResult_def)
qed

lemma claude_message_step_disabled:
  assumes "list_all (\<lambda>m. list_all (\<lambda>p. \<not> is_thought p \<and> thoughtSignature_of p = None) (parts m)) acc"
  shows "list_all (\<lambda>m. list_all (\<lambda>p. \<not> is_thought p \<and> thoughtSignature_of p = None) (parts m))
           (claude_message_step e False model sid ht acc m)"
  using assms
  by (auto simp: claude_message_step_def
           intro!: handleClaudeToolResult_disabled handleClaudeAssistantMessage_disabled
                   pushUserMessage_inv extractImagesFromClaudeContent_inv)

lemma claude_fold_messages_disabled:
  assumes "list_all (\<lambda>m. list_all (\<lambda>p. \<not> is_thought p \<and> thoughtSignature_of p = None) (parts m)) acc"
  shows "list_all (\<lambda>m. list_all (\<lambda>p. \<not> is_thought p \<and> thoughtSignature_of p = None) (parts m))
           (foldl (claude_message_step e False model sid ht) acc ms)"
  using assms by (induction ms arbitrary: acc) (simp_all add: claude_message_step_disabled)

subsection \<open>The assistant-message handlers, branch by branch\<close>

lemma openai_toolCalls_nonempty:
  "(openai_toolCalls e m th model sid ht = []) = (msg_tool_calls m = [])"
  by (simp add: openai_toolCalls_def Let_def)

lemma handleAssistantMessage_merge:
  assumes "msgs \<noteq> []" "role (last msgs) = Model" "msg_tool_calls m \<noteq> []"
    "openai_hasContent m = Inr False"
  shows "handleAssistantMessage e m msgs th model sid ht =
           Inr (butlast msgs @
                  [(last msgs) \<lparr> parts := parts (last msgs) @ openai_toolCalls e m th model sid ht \<rparr>])"
  using assms
  by (simp add: handleAssistantMessage_def pushModelMessage_merge openai_toolCalls_nonempty)

lemma handleAssistantMessage_new:
  assumes "openai_hasContent m = Inr hc"
    "\<not> (msgs \<noteq> [] \<and> role (last msgs) = Model \<and> msg_tool_calls m \<noteq> [] \<and> \<not> hc)"
  shows "handleAssistantMessage e m msgs th model sid ht =
           Inr (msgs @ [\<lparr> role = Model,
                          parts = openai_parts e m th model sid ht hc @
                                  openai_toolCalls e m th model sid ht \<rparr>])"
  using assms
  by (simp add: handleAssistantMessage_def pushModelMessage_new openai_toolCalls_nonempty)

lemma handleClaudeAssistantMessage_merge:
  assumes "msgs \<noteq> []" "role (last msgs) = Model"
    "scanToolCalls (claude_assistant_scan e m th model sid ht) \<noteq> []"
    "\<not> (textContent (claude_assistant_scan e m th model sid ht) \<noteq> [] \<and>
        trim (textContent (claude_assistant_scan e m th model sid ht)) \<noteq> [])"
  shows "handleClaudeAssistantMessage e m msgs th model sid ht =
           butlast msgs @
             [(last msgs) \<lparr> parts := parts (last msgs) @
                 scanToolCalls (claude_assistant_scan e m th model sid ht) \<rparr>]"
  using assms
  by (simp add: handleClaudeAssistantMessage_def Let_def pushModelMessage_merge)

lemma handleClaudeAssistantMessage_new:
  assumes "\<not> (msgs \<noteq> [] \<and> role (last msgs) = Model \<and>
              scanToolCalls (claude_assistant_scan e m th model sid ht) \<noteq> [] \<and>
              \<not> (textContent (claude_assistant_scan e m th model sid ht) \<noteq> [] \<and>
                 trim (textContent (claude_assistant_scan e m th model sid ht)) \<noteq> []))"
  shows "handleClaudeAssistantMessage e m msgs th model sid ht =
           msgs @ [\<lparr> role = Model,
                     parts = claude_parts e m th model sid ht @
                             scanToolCalls (claude_assistant_scan e m th model sid ht) \<rparr>]"
  using assms
  by (simp add: handleClaudeAssistantMessage_def Let_def pushModelMessage_new)

subsection \<open>The thought part of an assistant message\<close>

lemma filter_thought_calls:
  "list_all is_functionCall ps \<Longrightarrow> filter is_thought ps = []"
proof (induction ps)
  case Nil
  then show ?case by simp
next
  case (Cons p ps)
  then show ?case by (cases p) simp_all
qed

lemma openai_parts_thought:
  "filter is_thought (openai_parts e m th model sid ht hc) =
     (if th \<and> truthy (js_or (js_or (msg_thoughtSignature m)
                                   (reasoningSignature (getSignatureContext e sid model ht)))
                            (toolSignature (getSignatureContext e sid model ht)))
      then [ThoughtPart (case msg_reasoning_content m of
                           Some r \<Rightarrow> if r \<noteq> [] then r else '' ''
                         | None \<Rightarrow> '' '')
                        (js_or (js_or (msg_thoughtSignature m)
                                      (reasoningSignature (getSignatureContext e sid model ht)))
                               (toolSignature (getSignatureContext e sid model ht)))]
      else [])"
  by (simp add: openai_parts_def createThoughtPart_def Let_def split: option.splits)

lemma claude_parts_thought:
  "filter is_thought (claude_parts e m th model sid ht) =
     (if th \<and> truthy (js_or (js_or (messageSignature (claude_assistant_scan e m th model sid ht))
                                   (reasoningSignature (getSignatureContext e sid model ht)))
                            (toolSignature (getSignatureContext e sid model ht)))
      then [ThoughtPart '' ''
              (js_or (js_or (messageSignature (claude_assistant_scan e m th model sid ht))
                            (reasoningSignature (getSignatureContext e sid model ht)))
                     (toolSignature (getSignatureContext e sid model ht)))]
      else [])"
  by (simp add: claude_parts_def createThoughtPart_def Let_def)

lemma openai_hasContent_cases:
  "handleAssistantMessage e m msgs th model sid ht = Inr out \<Longrightarrow>
   \<exists>hc. openai_hasContent m = Inr hc"
  by (cases "openai_hasContent m") (simp_all add: handleAssistantMessage_def)

lemma openai_thought_emitted:
  assumes "handleAssistantMessage e m msgs th model sid ht = Inr out"
  shows "if msgs \<noteq> [] \<and> role (last msgs) = Model \<and> msg_tool_calls m \<noteq> [] \<and>
            openai_hasContent m = Inr False
         then out = butlast msgs @
                [(last msgs) \<lparr> parts := parts (last msgs) @ openai_toolCalls e m th model sid ht \<rparr>] \<and>
              filter is_thought (openai_toolCalls e m th model sid ht) = []
         else \<exists>ps. out = msgs @ [\<lparr> role = Model, parts = ps \<rparr>] \<and>
                filter is_thought ps =
                  (if th \<and> truthy (js_or (js_or (msg_thoughtSignature m)
                                   (reasoningSignature (getSignatureContext e sid model ht)))
                            (toolSignature (getSignatureContext e sid model ht)))
                   then [ThoughtPart (case msg_reasoning_content m of
                                        Some r \<Rightarrow> if r \<noteq> [] then r else '' ''
                                      | None \<Rightarrow> '' '')
                           (js_or (js_or (msg_thoughtSignature m)
                                         (reasoningSignature (getSignatureContext e sid model ht)))
                                  (toolSignature (getSignatureContext e sid model ht)))]
                   else [])"
proof -
  obtain hc where hc: "openai_hasContent m = Inr hc"
    using openai_hasContent_cases [OF assms] by blast
  show ?thesis
  proof (cases "msgs \<noteq> [] \<and> role (last msgs) = Model \<and> msg_tool_calls m \<noteq> [] \<and> \<not> hc")
    case True
    then show ?thesis
      using assms hc handleAssistantMessage_merge [of msgs m e th model sid ht]
        filter_thought_calls [OF openai_toolCalls_all_calls [of e m th model sid ht]]
      by simp
  next
    case False
    then have "out = msgs @ [\<lparr> role = Model,
                          parts = openai_parts e m th model sid ht hc @
                                  openai_toolCalls e m th model sid ht \<rparr>]"
      using assms handleAssistantMessage_new [OF hc, of msgs e th model sid ht] by simp
    moreover have "filter is_thought (openai_parts e m th model sid ht hc @
                                  openai_toolCalls e m th model sid ht) =
        filter is_thought (openai_parts e m th model sid ht hc)"
      using filter_thought_calls [OF openai_toolCalls_all_calls [of e m th model sid ht]] by simp
    ultimately show ?thesis using False hc
      by (simp only: openai_parts_thought) auto
  qed
qed

lemma claude_thought_emitted:
  "if msgs \<noteq> [] \<and> role (last msgs) = Model \<and>
      scanToolCalls (claude_assistant_scan e m th model sid ht) \<noteq> [] \<and>
      \<not> (textContent (claude_assistant_scan e m th model sid ht) \<noteq> [] \<and>
         trim (textContent (claude_assistant_scan e m th model sid ht)) \<noteq> [])
   then handleClaudeAssistantMessage e m msgs th model sid ht =
          butlast msgs @
            [(last msgs) \<lparr> parts := parts (last msgs) @
                scanToolCalls (claude_assistant_scan e m th model sid ht) \<rparr>] \<and>
        filter is_thought (scanToolCalls (claude_assistant_scan e m th model sid ht)) = []
   else \<exists>ps. handleClaudeAssistantMessage e m msgs th model sid ht =
                msgs @ [\<lparr> role = Model, parts = ps \<rparr>] \<and>
          filter is_thought ps =
            (if th \<and> truthy (js_or (js_or (messageSignature (claude_assistant_scan e m th model sid ht))
                                   (reasoningSignature (getSignatureContext e sid model ht)))
                            (toolSignature (getSignatureContext e sid model ht)))
             then [ThoughtPart '' ''
                     (js_or (js_or (messageSignature (claude_assistant_scan e m th model sid ht))
                                   (reasoningSignature (getSignatureContext e sid model ht)))
                            (toolSignature (getSignatureContext e sid model ht)))]
             else [])"
proof (cases "msgs \<noteq> [] \<and> role (last msgs) = Model \<and>
      scanToolCalls (claude_assistant_scan e m th model sid ht) \<noteq> [] \<and>
      \<not> (textContent (claude_assistant_scan e m th model sid ht) \<noteq> [] \<and>
         trim (textContent (claude_assistant_scan e m th model sid ht)) \<noteq> [])")
  case True
  then show ?thesis
    using handleClaudeAssistantMessage_merge [of msgs e m th model sid ht]
      filter_thought_calls [OF claude_scan_all_calls [of e m th model sid ht]]
    by simp
next
  case False
  have "filter is_thought (claude_parts e m th model sid ht @
            scanToolCalls (claude_assistant_scan e m th model sid ht)) =
        filter is_thought (claude_parts e m th model sid ht)"
    using filter_thought_calls [OF claude_scan_all_calls [of e m th model sid ht]] by simp
  then show ?thesis
    using False handleClaudeAssistantMessage_new [OF False]
    by (simp only: claude_parts_thought) auto
qed


subsection \<open>The signature chains\<close>

lemma first_truthy_append:
  "first_truthy (xs @ ys) = (if truthy (first_truthy xs) then first_truthy xs else first_truthy ys)"
  by (induction xs) (simp_all add: truthy_def)

lemma context_reasoning:
  "reasoningSignature (getSignatureContext e sid model ht) =
     js_or (cached_reasoning e sid model) (fallback_reasoning e model)"
  by (simp add: getSignatureContext_def cached_reasoning_def fallback_reasoning_def Let_def)

lemma context_tool:
  "toolSignature (getSignatureContext e sid model ht) =
     js_or (cached_tool e sid model ht) (fallback_tool e model ht)"
  by (auto simp add: getSignatureContext_def cached_tool_def fallback_tool_def Let_def)

lemma call_signature_chain:
  "thoughtSignature_of
     (createFunctionCallPart i n args (js_or (js_or (js_or a (js_or b c)) d) (js_or f g))) =
   first_truthy [a, b, c, d, f, g]"
  by (simp add: createFunctionCallPart_def js_or_def)

lemma attach_chain5:
  "(if truthy (js_or (js_or a (js_or b c)) (js_or f g))
    then js_or (js_or a (js_or b c)) (js_or f g) else None) =
   first_truthy [a, b, c, f, g]"
  by (simp add: js_or_def)

lemma openai_call_signatures:
  "map thoughtSignature_of (openai_toolCalls e m True model sid ht) =
     map (\<lambda>toolCall. first_truthy
            [tc_thoughtSignature toolCall,
             cached_tool e sid model ht, fallback_tool e model ht,
             msg_thoughtSignature m,
             cached_reasoning e sid model, fallback_reasoning e model])
         (msg_tool_calls m)"
proof -
  have "openai_toolCalls e m True model sid ht =
     map (\<lambda>toolCall. createFunctionCallPart (tc_id toolCall)
            (processToolName e (tc_function_name toolCall) sid model)
            (tc_function_arguments toolCall)
            (js_or (js_or (js_or (tc_thoughtSignature toolCall)
                                 (js_or (cached_tool e sid model ht) (fallback_tool e model ht)))
                          (msg_thoughtSignature m))
                   (js_or (cached_reasoning e sid model) (fallback_reasoning e model))))
         (msg_tool_calls m)"
    by (simp add: openai_toolCalls_def Let_def context_reasoning context_tool)
  then show ?thesis
    by (simp add: call_signature_chain o_def del: first_truthy.simps)
qed

lemma openai_thought_signature:
  "map thoughtSignature_of (filter is_thought (openai_parts e m True model sid ht hc)) =
     (case first_truthy
             [msg_thoughtSignature m,
              cached_reasoning e sid model, fallback_reasoning e model,
              cached_tool e sid model ht, fallback_tool e model ht] of
        None \<Rightarrow> []
      | Some s \<Rightarrow> [Some s])"
proof -
  let ?sg = "js_or (js_or (msg_thoughtSignature m)
                 (js_or (cached_reasoning e sid model) (fallback_reasoning e model)))
               (js_or (cached_tool e sid model ht) (fallback_tool e model ht))"
  let ?ft = "first_truthy
             [msg_thoughtSignature m,
              cached_reasoning e sid model, fallback_reasoning e model,
              cached_tool e sid model ht, fallback_tool e model ht]"
  have a: "(if truthy ?sg then ?sg else None) = ?ft" by (rule attach_chain5)
  show ?thesis
  proof (cases "truthy ?sg")
    case True
    with a have "?ft = ?sg" by simp
    moreover from True obtain s where "?sg = Some s" by (cases ?sg) (simp_all add: truthy_def)
    ultimately show ?thesis using True
      by (simp add: openai_parts_thought context_reasoning context_tool del: first_truthy.simps)
  next
    case False
    with a have "?ft = None" by simp
    then show ?thesis using False
      by (simp add: openai_parts_thought context_reasoning context_tool del: first_truthy.simps)
  qed
qed


lemma call_signature_chain5:
  "thoughtSignature_of
     (createFunctionCallPart i n args (js_or (js_or a (js_or b c)) (js_or f g))) =
   first_truthy [a, b, c, f, g]"
  by (simp add: createFunctionCallPart_def js_or_def)

lemma claude_item_call_signatures:
  "map thoughtSignature_of
     (scanToolCalls (claude_assistant_item e True model sid (getSignatureContext e sid model ht) st item)) =
   map thoughtSignature_of (scanToolCalls st) @
   map (\<lambda>sg. first_truthy [sg, cached_tool e sid model ht, fallback_tool e model ht,
                            cached_reasoning e sid model, fallback_reasoning e model])
       (tool_use_signatures [item])"
  by (cases item)
     (simp_all add: claude_assistant_item_def Let_def context_reasoning context_tool
        call_signature_chain5 del: first_truthy.simps)

lemma tool_use_signatures_Cons:
  "tool_use_signatures (item # items) = tool_use_signatures [item] @ tool_use_signatures items"
  by (cases item) simp_all

lemma claude_fold_call_signatures:
  "map thoughtSignature_of
     (scanToolCalls (foldl (claude_assistant_item e True model sid (getSignatureContext e sid model ht))
                           st items)) =
   map thoughtSignature_of (scanToolCalls st) @
   map (\<lambda>sg. first_truthy [sg, cached_tool e sid model ht, fallback_tool e model ht,
                            cached_reasoning e sid model, fallback_reasoning e model])
       (tool_use_signatures items)"
proof (induction items arbitrary: st)
  case Nil
  then show ?case by simp
next
  case (Cons item items)
  show ?case
    by (simp only: foldl_Cons Cons.IH claude_item_call_signatures
          tool_use_signatures_Cons [of item items] map_append append_assoc)
qed

lemma claude_call_signatures:
  "map thoughtSignature_of (scanToolCalls (claude_assistant_scan e m True model sid ht)) =
   map (\<lambda>sg. first_truthy [sg, cached_tool e sid model ht, fallback_tool e model ht,
                            cached_reasoning e sid model, fallback_reasoning e model])
       (tool_use_signatures (claude_items (cl_content m)))"
  by (cases "cl_content m")
     (simp_all add: claude_assistant_scan_def Let_def claude_fold_call_signatures
        del: first_truthy.simps)

lemma claude_item_message_signature:
  "first_truthy [messageSignature (claude_assistant_item e th model sid ctx st item)] =
   first_truthy (messageSignature st # thinking_signatures [item])"
  by (cases item) (simp_all add: claude_assistant_item_def Let_def truthy_def)

lemma thinking_signatures_Cons:
  "thinking_signatures (item # items) = thinking_signatures [item] @ thinking_signatures items"
  by (cases item) simp_all

lemma first_truthy_idem:
  "first_truthy (first_truthy xs # ys) = first_truthy (xs @ ys)"
  by (simp add: first_truthy_append)

lemma claude_fold_message_signature:
  "first_truthy [messageSignature (foldl (claude_assistant_item e th model sid ctx) st items)] =
   first_truthy (messageSignature st # thinking_signatures items)"
proof (induction items arbitrary: st)
  case Nil
  then show ?case by simp
next
  case (Cons item items)
  have "first_truthy [messageSignature (foldl (claude_assistant_item e th model sid ctx) st (item # items))] =
        first_truthy (messageSignature (claude_assistant_item e th model sid ctx st item) #
                      thinking_signatures items)"
    using Cons.IH by simp
  also have "\<dots> = first_truthy
      (first_truthy [messageSignature (claude_assistant_item e th model sid ctx st item)] #
       thinking_signatures items)"
    by (simp add: truthy_def)
  also have "\<dots> = first_truthy
      (first_truthy (messageSignature st # thinking_signatures [item]) # thinking_signatures items)"
    by (simp only: claude_item_message_signature)
  also have "\<dots> = first_truthy (messageSignature st # thinking_signatures (item # items))"
    by (simp only: first_truthy_idem thinking_signatures_Cons [of item items] append_Cons)
  finally show ?case .
qed

lemma claude_message_signature:
  "first_truthy [messageSignature (claude_assistant_scan e m th model sid ht)] =
   first_truthy (thinking_signatures (claude_items (cl_content m)))"
  by (cases "cl_content m")
     (simp_all add: claude_assistant_scan_def Let_def claude_fold_message_signature truthy_def
        del: first_truthy.simps, simp_all add: truthy_def)

lemma thought_chain5:
  "(if truthy (js_or (js_or a (js_or b c)) (js_or f g))
    then [Some (the (js_or (js_or a (js_or b c)) (js_or f g)))] else []) =
   (case first_truthy (first_truthy [a] # [b, c, f, g]) of None \<Rightarrow> [] | Some s \<Rightarrow> [Some s])"
  by (auto simp add: js_or_def truthy_def split: option.splits)

lemma claude_thought_signature:
  "map thoughtSignature_of (filter is_thought (claude_parts e m True model sid ht)) =
     (case first_truthy
             (thinking_signatures (claude_items (cl_content m)) @
              [cached_reasoning e sid model, fallback_reasoning e model,
               cached_tool e sid model ht, fallback_tool e model ht]) of
        None \<Rightarrow> []
      | Some s \<Rightarrow> [Some s])"
proof -
  let ?ms = "messageSignature (claude_assistant_scan e m True model sid ht)"
  let ?sg = "js_or (js_or ?ms (js_or (cached_reasoning e sid model) (fallback_reasoning e model)))
               (js_or (cached_tool e sid model ht) (fallback_tool e model ht))"
  have "map thoughtSignature_of (filter is_thought (claude_parts e m True model sid ht)) =
        (if truthy ?sg then [Some (the ?sg)] else [])"
    by (auto simp add: claude_parts_thought context_reasoning context_tool truthy_def
          split: option.splits)
  also have "\<dots> = (case first_truthy (first_truthy [?ms] #
              [cached_reasoning e sid model, fallback_reasoning e model,
               cached_tool e sid model ht, fallback_tool e model ht]) of
        None \<Rightarrow> [] | Some s \<Rightarrow> [Some s])"
    by (rule thought_chain5)
  also have "\<dots> = (case first_truthy
             (thinking_signatures (claude_items (cl_content m)) @
              [cached_reasoning e sid model, fallback_reasoning e model,
               cached_tool e sid model ht, fallback_tool e model ht]) of
        None \<Rightarrow> []
      | Some s \<Rightarrow> [Some s])"
    by (simp only: claude_message_signature first_truthy_idem)
  finally show ?thesis .
qed

lemma tool_reads_gated:
  "cacheOnlyToolSignatures e \<Longrightarrow> \<not> ht \<Longrightarrow>
   toolSignature (getSignatureContext e sid model ht) = None"
  by (simp add: getSignatureContext_def Let_def js_or_def truthy_def)

lemma openai_parts_no_calls:
  "\<not> list_ex is_functionCall (openai_parts e m th model sid ht hc)"
  by (simp add: openai_parts_def createThoughtPart_def Let_def)

lemma claude_parts_no_calls:
  "\<not> list_ex is_functionCall (claude_parts e m th model sid ht)"
  by (simp add: claude_parts_def createThoughtPart_def Let_def)

lemma openai_two_tool_call_messages:
  assumes "msg_role m1 = RoleAssistant" "msg_role m2 = RoleAssistant"
    "openai_hasContent m1 = Inr False" "openai_hasContent m2 = Inr False"
    "msg_tool_calls m2 \<noteq> []"
  shows "openaiMessageToAntigravity e [m1, m2] th model sid ht =
           Inr [\<lparr> role = Model,
                  parts = openai_parts e m1 th model sid ht False @
                          openai_toolCalls e m1 th model sid ht @
                          openai_toolCalls e m2 th model sid ht \<rparr>]"
proof -
  have one: "handleAssistantMessage e m1 [] th model sid ht =
      Inr [\<lparr> role = Model, parts = openai_parts e m1 th model sid ht False @
                                  openai_toolCalls e m1 th model sid ht \<rparr>]"
    using handleAssistantMessage_new [OF assms(3), of "[]" e th model sid ht] by simp
  have two: "handleAssistantMessage e m2
        [\<lparr> role = Model, parts = openai_parts e m1 th model sid ht False @
                                  openai_toolCalls e m1 th model sid ht \<rparr>] th model sid ht =
      Inr [\<lparr> role = Model,
             parts = openai_parts e m1 th model sid ht False @
                     openai_toolCalls e m1 th model sid ht @
                     openai_toolCalls e m2 th model sid ht \<rparr>]"
    using assms(4,5) by (simp add: handleAssistantMessage_merge)
  show ?thesis using assms(1,2) by (simp add: openaiMessageToAntigravity_def one two)
qed

lemma claude_single_tool_use:
  "claude_assistant_scan e \<lparr> cl_role = r, cl_content = ClaudeArray [ClaudeToolUse i n inp sg] \<rparr>
     th model sid ht =
   \<lparr> textContent = [],
     scanToolCalls =
       [createFunctionCallPart i (sanitizeToolName e n) (ArgString inp)
          (if th then js_or (js_or sg (toolSignature (getSignatureContext e sid model ht)))
                            (reasoningSignature (getSignatureContext e sid model ht))
           else None)],
     messageSignature = None \<rparr>"
  by (simp add: claude_assistant_scan_def claude_assistant_item_def processToolName_def Let_def)

lemma claude_two_tool_use_messages:
  "claudeMessageToAntigravity e
     [\<lparr> cl_role = ClaudeAssistant, cl_content = ClaudeArray [ClaudeToolUse ia na inpa sga] \<rparr>,
      \<lparr> cl_role = ClaudeAssistant, cl_content = ClaudeArray [ClaudeToolUse ib nb inpb sgb] \<rparr>]
     th model sid ht =
   [\<lparr> role = Model,
      parts =
        claude_parts e
          \<lparr> cl_role = ClaudeAssistant, cl_content = ClaudeArray [ClaudeToolUse ia na inpa sga] \<rparr>
          th model sid ht @
        [createFunctionCallPart ia (sanitizeToolName e na) (ArgString inpa)
           (if th then js_or (js_or sga (toolSignature (getSignatureContext e sid model ht)))
                             (reasoningSignature (getSignatureContext e sid model ht))
            else None),
         createFunctionCallPart ib (sanitizeToolName e nb) (ArgString inpb)
           (if th then js_or (js_or sgb (toolSignature (getSignatureContext e sid model ht)))
                             (reasoningSignature (getSignatureContext e sid model ht))
            else None)] \<rparr>]"
  by (simp add: claudeMessageToAntigravity_def claude_message_step_def is_tool_result_def
        handleClaudeAssistantMessage_def claude_single_tool_use pushModelMessage_def Let_def
        trim_def trimEnd_def)

subsection \<open>Looking a function name up by call id\<close>

lemma find_in_parts_none:
  "(\<forall>p\<in>set ps. functionCall_id p \<noteq> Some tid) \<Longrightarrow> find_in_parts tid ps = None"
  by (induction tid ps rule: find_in_parts.induct) auto

lemma find_in_parts_first:
  "(\<forall>p\<in>set ps. functionCall_id p \<noteq> Some tid) \<Longrightarrow>
   find_in_parts tid (ps @ FunctionCallPart tid n a s # qs) = Some n"
  by (induction tid ps rule: find_in_parts.induct) auto

lemma findFunctionNameById_two_back:
  assumes "role m1 = Model" and "parts m1 = ps @ FunctionCallPart tid n a s # qs"
    and "\<forall>p\<in>set ps. functionCall_id p \<noteq> Some tid"
    and "\<forall>p\<in>set (parts m2). functionCall_id p \<noteq> Some tid"
  shows "findFunctionNameById tid (ms @ [m1, m2]) = n"
  using assms by (simp add: findFunctionNameById_def find_in_parts_none find_in_parts_first)

section \<open>Properties of the transport\<close>

subsection \<open>Decoding and encoding ASCII\<close>

lemma utf8_step_ascii: "b < 0x80 \<Longrightarrow> utf8_step utf8_reset b = (utf8_reset, [unat b])"
  by (simp add: utf8_step_def utf8_reset_def utf8_lead_def Let_def word_less_nat_alt)

lemma utf8_run_ascii:
  "list_all (\<lambda>b. b < 0x80) bs \<Longrightarrow>
   utf8_run utf8_reset (bs @ rest) = map unat bs @ utf8_run utf8_reset rest"
  by (induction bs) (simp_all add: utf8_step_ascii)

lemma buffer_toString_ascii:
  "list_all (\<lambda>b. b < 0x80) bs \<Longrightarrow> buffer_toString bs = map unat bs"
  using utf8_run_ascii [of bs "[]"] by (simp add: buffer_toString_def utf8_reset_def)

lemma utf8_encode_ascii: "b < 0x80 \<Longrightarrow> utf8_encode (unat b) = [b]"
  by (simp add: utf8_encode_def Let_def word_less_nat_alt)

lemma buffer_from_ascii:
  "list_all (\<lambda>b. b < 0x80) bs \<Longrightarrow> buffer_from (map unat bs) = bs"
  by (induction bs) (simp_all add: buffer_from_def utf8_encode_ascii)

lemma list_all_take: "list_all P xs \<Longrightarrow> list_all P (take k xs)"
  by (auto simp: list_all_iff dest: in_set_takeD)

lemma list_all_drop: "list_all P xs \<Longrightarrow> list_all P (drop k xs)"
  by (auto simp: list_all_iff dest: in_set_dropD)

subsection \<open>Searching a prefix\<close>

lemma take_whole: "take (length pat) xs = pat \<Longrightarrow> length pat \<le> length xs"
proof -
  assume "take (length pat) xs = pat"
  then have "length (take (length pat) xs) = length pat" by simp
  then show ?thesis by simp
qed

lemma take_append_short: "n \<le> length xs \<Longrightarrow> take n (xs @ ys) = take n xs"
  by simp

lemma indexOf_bound: "indexOf xs pat = Some i \<Longrightarrow> i + length pat \<le> length xs"
proof (induction xs arbitrary: i)
  case Nil
  then show ?case by (simp split: if_splits)
next
  case (Cons c cs)
  show ?case
  proof (cases "take (length pat) (c # cs) = pat")
    case True
    then have "length pat \<le> length (c # cs)"
      by (rule take_whole)
    with True Cons.prems show ?thesis by simp
  next
    case False
    with Cons.prems obtain j where "indexOf cs pat = Some j" "i = Suc j" by auto
    with Cons.IH show ?thesis by simp
  qed
qed

lemma indexOf_append:
  "indexOf xs pat = Some i \<Longrightarrow> indexOf (xs @ ys) pat = Some i"
proof (induction xs arbitrary: i)
  case Nil
  then show ?case by (cases ys) (simp_all split: if_splits)
next
  case (Cons c cs)
  show ?case
  proof (cases "take (length pat) (c # cs) = pat")
    case True
    then have "length pat \<le> length (c # cs)"
      by (rule take_whole)
    then have "take (length pat) ((c # cs) @ ys) = take (length pat) (c # cs)"
      by (rule take_append_short)
    with True Cons.prems show ?thesis by simp
  next
    case False
    with Cons.prems obtain j where j: "indexOf cs pat = Some j" "i = Suc j" by auto
    from indexOf_bound [OF j(1)] have "length pat \<le> length (c # cs)" by simp
    then have "take (length pat) ((c # cs) @ ys) = take (length pat) (c # cs)"
      by (rule take_append_short)
    with False have "take (length pat) ((c # cs) @ ys) \<noteq> pat" by simp
    with j Cons.IH show ?thesis by simp
  qed
qed

subsection \<open>Responses of ASCII bytes may be split anywhere\<close>

text \<open>
  The \<open>close\<close> handler reads the parser's variables only through the status, the status
  text, the headers and the concatenation of the body chunks.
\<close>

lemma on_close_depends:
  assumes "responseHeaders a = responseHeaders b" "responseStatus a = responseStatus b"
    "responseStatusText a = responseStatusText b" "concat (bodyChunks a) = concat (bodyChunks b)"
  shows "on_close lib cfg a err code = on_close lib cfg b err code"
  using assms by (simp add: on_close_def Let_def)

lemma drop_take_drop: "n \<le> length (take k xs) \<Longrightarrow> drop n (take k xs) @ drop k xs = drop n xs"
proof -
  assume n: "n \<le> length (take k xs)"
  have "drop n xs = drop n (take k xs @ drop k xs)" by simp
  also have "\<dots> = drop n (take k xs) @ drop k xs" using n by (simp only: drop_append) simp
  finally show ?thesis by simp
qed

lemma request_split_ascii:
  assumes "list_all (\<lambda>b. b < 0x80) raw"
  shows "request lib cfg [take k raw, drop k raw] err code = request lib cfg [raw] err code"
proof -
  let ?s = "map unat raw"
  have d1: "buffer_toString (take k raw) = take k ?s"
    using buffer_toString_ascii [OF list_all_take [OF assms, of k]] by (simp add: take_map)
  have d2: "buffer_toString (drop k raw) = drop k ?s"
    using buffer_toString_ascii [OF list_all_drop [OF assms, of k]] by (simp add: drop_map)
  have dw: "buffer_toString raw = ?s"
    using buffer_toString_ascii [OF assms] .
  show ?thesis
  proof (cases "indexOf (take k ?s) (CRLF @ CRLF)")
    case None
    then have a1: "on_stdout_data lib parser_init (take k raw) =
        parser_init \<lparr> headerBuffer := take k ?s \<rparr>"
      by (simp add: on_stdout_data_def parser_init_def d1)
    have "on_stdout_data lib (parser_init \<lparr> headerBuffer := take k ?s \<rparr>) (drop k raw) =
        on_stdout_data lib parser_init raw"
      by (simp add: on_stdout_data_def parser_init_def d2 dw headers_found_def Let_def
            split: option.splits)
    then show ?thesis by (simp add: request_def a1)
  next
    case (Some i)
    from indexOf_bound [OF Some] have b: "i + 4 \<le> length (take k ?s)"
      by (simp add: CRLF_def)
    from indexOf_append [OF Some, of "drop k ?s"] have w: "indexOf ?s (CRLF @ CRLF) = Some i"
      by simp
    from b have hp: "min i k = i" by simp
    let ?a = "headers_found lib parser_init (take k ?s) i"
    let ?w = "headers_found lib parser_init ?s i"
    have a1: "on_stdout_data lib parser_init (take k raw) = ?a"
      using Some by (simp add: on_stdout_data_def parser_init_def d1)
    have aw: "on_stdout_data lib parser_init raw = ?w"
      using w by (simp add: on_stdout_data_def parser_init_def dw)
    have a2: "on_stdout_data lib ?a (drop k raw) = ?a \<lparr> bodyChunks := bodyChunks ?a @ [drop k raw] \<rparr>"
      by (simp add: on_stdout_data_def headers_found_def Let_def)
    have f1: "responseHeaders ?a = responseHeaders ?w"
      and f2: "responseStatus ?a = responseStatus ?w"
      and f3: "responseStatusText ?a = responseStatusText ?w"
      by (simp_all add: headers_found_def Let_def hp)
    have "concat (bodyChunks ?a) = buffer_from (drop (i + 4) (take k ?s))"
      by (simp add: headers_found_def Let_def parser_init_def buffer_from_def)
    also have "\<dots> = buffer_from (map unat (drop (i + 4) (take k raw)))"
      by (simp add: drop_map take_map)
    also have "\<dots> = drop (i + 4) (take k raw)"
      by (rule buffer_from_ascii [OF list_all_drop [OF list_all_take [OF assms]]])
    finally have ba: "concat (bodyChunks ?a) = drop (i + 4) (take k raw)" .
    have "concat (bodyChunks ?w) = buffer_from (drop (i + 4) ?s)"
      by (simp add: headers_found_def Let_def parser_init_def buffer_from_def)
    also have "\<dots> = buffer_from (map unat (drop (i + 4) raw))"
      by (simp add: drop_map)
    also have "\<dots> = drop (i + 4) raw"
      by (rule buffer_from_ascii [OF list_all_drop [OF assms]])
    finally have bw: "concat (bodyChunks ?w) = drop (i + 4) raw" .
    from b have len: "i + 4 \<le> length (take k raw)" by simp
    have body: "concat (bodyChunks (?a \<lparr> bodyChunks := bodyChunks ?a @ [drop k raw] \<rparr>)) =
        concat (bodyChunks ?w)"
    proof -
      have "concat (bodyChunks (?a \<lparr> bodyChunks := bodyChunks ?a @ [drop k raw] \<rparr>)) =
          concat (bodyChunks ?a) @ drop k raw"
        by simp
      also have "\<dots> = drop (i + 4) (take k raw) @ drop k raw" by (simp only: ba)
      also have "\<dots> = drop (i + 4) raw" by (rule drop_take_drop [OF len])
      also have "\<dots> = concat (bodyChunks ?w)" by (simp only: bw)
      finally show ?thesis .
    qed
    have "on_close lib cfg (?a \<lparr> bodyChunks := bodyChunks ?a @ [drop k raw] \<rparr>) err code =
        on_close lib cfg ?w err code"
      by (rule on_close_depends [OF _ _ _ body]) (simp_all add: f1 f2 f3)
    then show ?thesis by (simp add: request_def a1 a2 aw)
  qed
qed

subsection \<open>Evaluating the parser on the example responses\<close>

lemmas utf8_defs = buffer_toString_def utf8_step_def utf8_reset_def utf8_lead_def Let_def

lemmas parse_defs = on_stdout_data_def headers_found_def parser_init_def Let_def buffer_from_def
  utf8_encode_def ascii_def CRLF_def split_def status_match_here_def is_version_char_def
  is_digit_def is_dot_char_def parseInt_digits_def header_line_def

lemma example_head_bytes:
  "example_head = [72, 84, 84, 80, 47, 49, 46, 49, 32, 50, 48, 48, 32, 79, 75, 13, 10, 13, 10]"
  by (simp add: example_head_def ascii_bytes_def)


lemma decode_head_whole:
  "buffer_toString (example_head @ [0xC3, 0xA9]) =
     [72, 84, 84, 80, 47, 49, 46, 49, 32, 50, 48, 48, 32, 79, 75, 13, 10, 13, 10, 0xE9]"
  unfolding buffer_toString_def
  by (subst utf8_run_ascii) (simp_all add: example_head_bytes utf8_defs)

lemma decode_head_cut:
  "buffer_toString (example_head @ [0xC3]) =
     [72, 84, 84, 80, 47, 49, 46, 49, 32, 50, 48, 48, 32, 79, 75, 13, 10, 13, 10, 0xFFFD]"
  unfolding buffer_toString_def
  by (subst utf8_run_ascii) (simp_all add: example_head_bytes utf8_defs)


lemma parse_head_whole:
  "on_stdout_data lib parser_init (example_head @ [0xC3, 0xA9]) =
     \<lparr> headersParsed = True, responseHeaders = [], responseStatus = 200,
       responseStatusText = ascii ''OK'',
       headerBuffer = buffer_toString (example_head @ [0xC3, 0xA9]),
       bodyChunks = [[0xC3, 0xA9]] \<rparr>"
  by (simp add: parse_defs decode_head_whole)

lemma parse_head_cut:
  "on_stdout_data lib parser_init (example_head @ [0xC3]) =
     \<lparr> headersParsed = True, responseHeaders = [], responseStatus = 200,
       responseStatusText = ascii ''OK'',
       headerBuffer = buffer_toString (example_head @ [0xC3]),
       bodyChunks = [[0xEF, 0xBF, 0xBD]] \<rparr>"
  by (simp add: parse_defs decode_head_cut)


lemma decode_samples:
  "buffer_toString [0xC3, 0xA9] = [0xE9]"
  "buffer_toString [0xEF, 0xBF, 0xBD, 0xA9] = [0xFFFD, 0xFFFD]"
  "buffer_toString [0x1F, 0x8B] = [0x1F, 0xFFFD]"
  by (simp_all add: utf8_defs)


subsection \<open>The body an exchange collects\<close>



text \<open>
  The head of a response is its status line and header lines up to and including the
  first empty line. When the head is made of ASCII bytes and arrives in the chunks
  \<open>pre\<close> and the start \<open>c\<close> of the next chunk, the parser finds the boundary in that
  chunk, whatever bytes \<open>b0\<close> follow the head there.
\<close>

lemma headers_found_buffer:
  "headers_found lib (parser_init \<lparr> headerBuffer := x \<rparr>) hb i = headers_found lib parser_init hb i"
  by (simp add: headers_found_def parser_init_def Let_def)




text \<open>
  The \<open>close\<close> handler after a failed exit, when the error stream is a text that
  \<open>JSON.parse\<close> reads as \<open>null\<close>: reading \<open>errorInfo.error\<close> throws, outside any \<open>try\<close>.
\<close>

lemma on_close_stderr_null:
  assumes "code \<noteq> Some 0" and "stderrData \<noteq> []"
    and "JSON_parse lib stderrData = Some JNull"
  shows "on_close lib cfg st stderrData code = (TypeErrorInHandler, [])"
  using assms by (simp add: on_close_def errorInfo_def get_property_def Let_def)


section \<open>The claims about the converters\<close>

text \<open>
  Claim C3 (merge law). Two consecutive assistant messages that each hold one tool call
  and no text are encoded to exactly one model-role message whose parts hold the call of
  the first and then the call of the second. This holds of \<open>pushModelMessage\<close> pushed
  twice onto the empty list, of the OpenAI converter for messages without content, and of
  the Claude converter for messages whose only block is a tool use. The parts before the
  two calls are those built for the first message and hold no function call.
\<close>

theorem C3_merge_law:
  "pushModelMessage p2 [B] False (pushModelMessage p1 [A] False []) =
     [\<lparr> role = Model, parts = p1 @ [A, B] \<rparr>] \<and>
   (msg_role m1 = RoleAssistant \<and> msg_role m2 = RoleAssistant \<and>
    openai_hasContent m1 = Inr False \<and> openai_hasContent m2 = Inr False \<and>
    msg_tool_calls m1 = [a] \<and> msg_tool_calls m2 = [b] \<longrightarrow>
      (\<exists>ps sa sb.
         openaiMessageToAntigravity e [m1, m2] th model sid ht =
           Inr [\<lparr> role = Model,
                  parts = ps @
                    [createFunctionCallPart (tc_id a) (sanitizeToolName e (tc_function_name a))
                       (tc_function_arguments a) sa,
                     createFunctionCallPart (tc_id b) (sanitizeToolName e (tc_function_name b))
                       (tc_function_arguments b) sb] \<rparr>] \<and>
         \<not> list_ex is_functionCall ps)) \<and>
   (\<exists>ps sa sb.
      claudeMessageToAntigravity e
        [\<lparr> cl_role = ClaudeAssistant, cl_content = ClaudeArray [ClaudeToolUse ia na inpa sga] \<rparr>,
         \<lparr> cl_role = ClaudeAssistant, cl_content = ClaudeArray [ClaudeToolUse ib nb inpb sgb] \<rparr>]
        th model sid ht =
        [\<lparr> role = Model,
           parts = ps @
             [createFunctionCallPart ia (sanitizeToolName e na) (ArgString inpa) sa,
              createFunctionCallPart ib (sanitizeToolName e nb) (ArgString inpb) sb] \<rparr>] \<and>
      \<not> list_ex is_functionCall ps)"
proof (intro conjI impI)
  show "pushModelMessage p2 [B] False (pushModelMessage p1 [A] False []) =
     [\<lparr> role = Model, parts = p1 @ [A, B] \<rparr>]"
    by (simp add: pushModelMessage_def)
next
  assume h: "msg_role m1 = RoleAssistant \<and> msg_role m2 = RoleAssistant \<and>
    openai_hasContent m1 = Inr False \<and> openai_hasContent m2 = Inr False \<and>
    msg_tool_calls m1 = [a] \<and> msg_tool_calls m2 = [b]"
  then have "openaiMessageToAntigravity e [m1, m2] th model sid ht =
           Inr [\<lparr> role = Model,
                  parts = openai_parts e m1 th model sid ht False @
                          openai_toolCalls e m1 th model sid ht @
                          openai_toolCalls e m2 th model sid ht \<rparr>]"
    by (simp add: openai_two_tool_call_messages)
  with h show "\<exists>ps sa sb.
         openaiMessageToAntigravity e [m1, m2] th model sid ht =
           Inr [\<lparr> role = Model,
                  parts = ps @
                    [createFunctionCallPart (tc_id a) (sanitizeToolName e (tc_function_name a))
                       (tc_function_arguments a) sa,
                     createFunctionCallPart (tc_id b) (sanitizeToolName e (tc_function_name b))
                       (tc_function_arguments b) sb] \<rparr>] \<and>
         \<not> list_ex is_functionCall ps"
    using openai_parts_no_calls [of e m1 th model sid ht False]
    by (simp add: openai_toolCalls_def processToolName_def Let_def) blast
next
  show "\<exists>ps sa sb.
      claudeMessageToAntigravity e
        [\<lparr> cl_role = ClaudeAssistant, cl_content = ClaudeArray [ClaudeToolUse ia na inpa sga] \<rparr>,
         \<lparr> cl_role = ClaudeAssistant, cl_content = ClaudeArray [ClaudeToolUse ib nb inpb sgb] \<rparr>]
        th model sid ht =
        [\<lparr> role = Model,
           parts = ps @
             [createFunctionCallPart ia (sanitizeToolName e na) (ArgString inpa) sa,
              createFunctionCallPart ib (sanitizeToolName e nb) (ArgString inpb) sb] \<rparr>] \<and>
      \<not> list_ex is_functionCall ps"
    using claude_parts_no_calls
    by (simp only: claude_two_tool_use_messages) blast
qed

theorem C3_merge_law_witness:
  "openaiMessageToAntigravity example_env
     [example_assistant (ContentString []) [example_call ''call_a'' ''f'' None] None,
      example_assistant (ContentString []) [example_call ''call_b'' ''g'' None] None]
     False ''model'' ''session'' True =
   Inr [\<lparr> role = Model,
          parts = [FunctionCallPart ''call_a'' ''f'' (QueryObject ''{}'') None,
                   FunctionCallPart ''call_b'' ''g'' (QueryObject ''{}'') None] \<rparr>]"
  using C3_merge_law
    [of "[]" "FunctionCallPart ''call_b'' ''g'' (QueryObject ''{}'') None"
        "[]" "FunctionCallPart ''call_a'' ''f'' (QueryObject ''{}'') None"
        "example_assistant (ContentString []) [example_call ''call_a'' ''f'' None] None"
        "example_assistant (ContentString []) [example_call ''call_b'' ''g'' None] None"
        "example_call ''call_a'' ''f'' None" "example_call ''call_b'' ''g'' None"
        example_env False "''model''" "''session''" True]
  by (simp add: openai_defs example_defs)

text \<open>
  Claim C8. A tool result whose call id is the id of a function call two canonical messages
  back, behind a model-role message that holds no function call with that id, resolves to
  the name of that function call: the backward scan passes the intervening message and
  returns the name of the first function call of the earlier message with that id. The
  OpenAI tool-message handler then appends a function response with that name.
\<close>

theorem C8_tool_result_resolves_name:
  assumes "role m1 = Model" and "parts m1 = ps @ FunctionCallPart tid n a s # qs"
    and "\<forall>p\<in>set ps. functionCall_id p \<noteq> Some tid"
    and "role m2 = Model"
    and "\<forall>p\<in>set (parts m2). functionCall_id p \<noteq> Some tid"
  shows "findFunctionNameById tid (ms @ [m1, m2]) = n \<and>
         handleToolCall (t \<lparr> msg_tool_call_id := tid \<rparr>) (ms @ [m1, m2]) =
           ms @ [m1, m2, \<lparr> role = User, parts = [FunctionResponsePart tid n (msg_content t)] \<rparr>]"
  using assms findFunctionNameById_two_back [OF assms(1,2,3,5), of ms]
  by (simp add: handleToolCall_def pushFunctionResponse_def)

theorem C8_tool_result_resolves_name_witness:
  "findFunctionNameById ''call_1''
     [\<lparr> role = User, parts = [TextPart ''hi''] \<rparr>,
      \<lparr> role = Model, parts = [FunctionCallPart ''call_0'' ''other'' (QueryObject ''{}'') None,
                              FunctionCallPart ''call_1'' ''get_weather'' (QueryObject ''{}'') None] \<rparr>,
      \<lparr> role = Model, parts = [TextPart ''working'',
                              FunctionCallPart ''call_2'' ''get_time'' (QueryObject ''{}'') None] \<rparr>]
   = ''get_weather''"
  using C8_tool_result_resolves_name
    [of "\<lparr> role = Model, parts = [FunctionCallPart ''call_0'' ''other'' (QueryObject ''{}'') None,
                              FunctionCallPart ''call_1'' ''get_weather'' (QueryObject ''{}'') None] \<rparr>"
        "[FunctionCallPart ''call_0'' ''other'' (QueryObject ''{}'') None]"
        "''call_1''" "''get_weather''" "QueryObject ''{}''" None "[]"
        "\<lparr> role = Model, parts = [TextPart ''working'',
                              FunctionCallPart ''call_2'' ''get_time'' (QueryObject ''{}'') None] \<rparr>"
        "[\<lparr> role = User, parts = [TextPart ''hi''] \<rparr>]"]
  by simp

text \<open>
  Claim C9. With thinking disabled no function-call part carries a signature, whatever
  the client sent and whatever the cache and the fallback tables hold: this holds of
  every part of every canonical message of a whole conversion, OpenAI or Claude.
  (With thinking enabled the signature is the first truthy candidate of the chain of
  claim C2.)
\<close>

theorem C9_no_call_signature_without_thinking:
  "(openaiMessageToAntigravity e openaiMessages False model sid ht = Inr out \<longrightarrow>
      (\<forall>m\<in>set out. \<forall>p\<in>set (parts m). is_functionCall p \<longrightarrow> thoughtSignature_of p = None)) \<and>
   (\<forall>m\<in>set (claudeMessageToAntigravity e claudeMessages False model sid ht).
      \<forall>p\<in>set (parts m). is_functionCall p \<longrightarrow> thoughtSignature_of p = None)"
proof (intro conjI impI)
  assume "openaiMessageToAntigravity e openaiMessages False model sid ht = Inr out"
  then have "list_all (\<lambda>m. list_all (\<lambda>p. \<not> is_thought p \<and> thoughtSignature_of p = None) (parts m)) out"
    using openai_loop_disabled [of e model sid ht openaiMessages "[]" out]
    by (simp add: openaiMessageToAntigravity_def)
  then show "\<forall>m\<in>set out. \<forall>p\<in>set (parts m). is_functionCall p \<longrightarrow> thoughtSignature_of p = None"
    by (simp add: list_all_iff)
next
  have "list_all (\<lambda>m. list_all (\<lambda>p. \<not> is_thought p \<and> thoughtSignature_of p = None) (parts m))
          (claudeMessageToAntigravity e claudeMessages False model sid ht)"
    using claude_fold_messages_disabled [of "[]" e model sid ht claudeMessages]
    by (simp add: claudeMessageToAntigravity_def)
  then show "\<forall>m\<in>set (claudeMessageToAntigravity e claudeMessages False model sid ht).
      \<forall>p\<in>set (parts m). is_functionCall p \<longrightarrow> thoughtSignature_of p = None"
    by (simp add: list_all_iff)
qed

theorem C9_no_call_signature_without_thinking_witness:
  "openaiMessageToAntigravity example_env
     [example_assistant ContentNone [example_call ''call_1'' ''f'' (Some ''explicit'')] (Some ''msg-sig'')]
     False ''model'' ''session'' True
   = Inr [\<lparr> role = Model, parts = [FunctionCallPart ''call_1'' ''f'' (QueryObject ''{}'') None] \<rparr>] \<and>
   thoughtSignature_of (FunctionCallPart ''call_1'' ''f'' (QueryObject ''{}'') None) = None"
proof -
  have eq: "openaiMessageToAntigravity example_env
     [example_assistant ContentNone [example_call ''call_1'' ''f'' (Some ''explicit'')] (Some ''msg-sig'')]
     False ''model'' ''session'' True
   = Inr [\<lparr> role = Model, parts = [FunctionCallPart ''call_1'' ''f'' (QueryObject ''{}'') None] \<rparr>]"
    by (simp add: openai_defs example_defs)
  from C9_no_call_signature_without_thinking
         [of example_env _ "''model''" "''session''" True _ "[]"] eq
  show ?thesis by simp
qed

text \<open>
  Claim C10. When the merge branch is taken (the list ends with a model-role message, the
  incoming message has tool calls and no content) the result is the old list with the
  tool-call parts appended to the parts of its last message: the messages before it, its
  role and its earlier parts are unchanged, and nothing else built for the incoming
  message is added. What is appended are function-call parts only, so a thought part
  built for the incoming message is dropped. Stated of \<open>pushModelMessage\<close> and of both
  assistant-message handlers.
\<close>

theorem C10_merge_appends_only_tool_calls:
  "(msgs \<noteq> [] \<and> role (last msgs) = Model \<and> toolCalls \<noteq> [] \<and> \<not> hasContent \<longrightarrow>
      pushModelMessage ps toolCalls hasContent msgs =
        butlast msgs @ [(last msgs) \<lparr> parts := parts (last msgs) @ toolCalls \<rparr>]) \<and>
   (msgs \<noteq> [] \<and> role (last msgs) = Model \<and> msg_tool_calls m \<noteq> [] \<and>
    openai_hasContent m = Inr False \<longrightarrow>
      handleAssistantMessage e m msgs th model sid ht =
        Inr (butlast msgs @
               [(last msgs) \<lparr> parts := parts (last msgs) @ openai_toolCalls e m th model sid ht \<rparr>]) \<and>
      list_all is_functionCall (openai_toolCalls e m th model sid ht) \<and>
      \<not> list_ex is_thought (openai_toolCalls e m th model sid ht)) \<and>
   (msgs \<noteq> [] \<and> role (last msgs) = Model \<and>
    scanToolCalls (claude_assistant_scan e cm th model sid ht) \<noteq> [] \<and>
    \<not> (textContent (claude_assistant_scan e cm th model sid ht) \<noteq> [] \<and>
       trim (textContent (claude_assistant_scan e cm th model sid ht)) \<noteq> []) \<longrightarrow>
      handleClaudeAssistantMessage e cm msgs th model sid ht =
        butlast msgs @
          [(last msgs) \<lparr> parts := parts (last msgs) @
              scanToolCalls (claude_assistant_scan e cm th model sid ht) \<rparr>] \<and>
      list_all is_functionCall (scanToolCalls (claude_assistant_scan e cm th model sid ht)) \<and>
      \<not> list_ex is_thought (scanToolCalls (claude_assistant_scan e cm th model sid ht)))"
  using handleAssistantMessage_merge [of msgs m e th model sid ht]
    handleClaudeAssistantMessage_merge [of msgs e cm th model sid ht]
    pushModelMessage_merge [of msgs toolCalls hasContent ps]
    openai_toolCalls_all_calls [of e m th model sid ht]
    claude_scan_all_calls [of e cm th model sid ht]
    functionCall_not_thought
  by blast

theorem C10_merge_appends_only_tool_calls_witness:
  "handleAssistantMessage example_env
     (example_assistant ContentNone [example_call ''call_b'' ''g'' None] (Some ''explicit''))
     [\<lparr> role = Model, parts = [TextPart ''first''] \<rparr>] True ''model'' ''session'' True =
   Inr [\<lparr> role = Model,
          parts = [TextPart ''first'',
                   FunctionCallPart ''call_b'' ''g'' (QueryObject ''{}'') (Some ''T-cached'')] \<rparr>] \<and>
   openai_parts example_env
     (example_assistant ContentNone [example_call ''call_b'' ''g'' None] (Some ''explicit''))
     True ''model'' ''session'' True False = [ThoughtPart '' '' (Some ''explicit'')]"
  using C10_merge_appends_only_tool_calls
    [of "[\<lparr> role = Model, parts = [TextPart ''first''] \<rparr>]"
        "[FunctionCallPart ''call_b'' ''g'' (QueryObject ''{}'') (Some ''T-cached'')]" False "[]"
        "example_assistant ContentNone [example_call ''call_b'' ''g'' None] (Some ''explicit'')"
        example_env True "''model''" "''session''" True]
  by (simp add: openai_defs example_defs)

text \<open>
  Claim C1, as stated, fails: a thought part is not emitted for every assistant message
  with thinking enabled and a resolving signature. The second of two consecutive
  tool-call-only assistant messages is merged into the first, and of the parts built for
  it only the tool calls are kept. Here the second message carries the explicit signature
  \<open>sig\<close>, cache and fallback are off, and the canonical message holds no thought part.
\<close>

theorem C1_thought_part_counterexample:
  "openaiMessageToAntigravity example_env_off
     [example_assistant ContentNone [example_call ''call_a'' ''f'' None] None,
      example_assistant ContentNone [example_call ''call_b'' ''g'' None] (Some ''sig'')]
     True ''model'' ''session'' False
   = Inr [\<lparr> role = Model,
            parts = [FunctionCallPart ''call_a'' ''f'' (QueryObject ''{}'') None,
                     FunctionCallPart ''call_b'' ''g'' (QueryObject ''{}'') (Some ''sig'')] \<rparr>] \<and>
   openai_parts example_env_off
     (example_assistant ContentNone [example_call ''call_b'' ''g'' None] (Some ''sig''))
     True ''model'' ''session'' False False = [ThoughtPart '' '' (Some ''sig'')] \<and>
   filter is_thought
     [FunctionCallPart ''call_a'' ''f'' (QueryObject ''{}'') None,
      FunctionCallPart ''call_b'' ''g'' (QueryObject ''{}'') (Some ''sig'')] = []"
  by (simp add: openai_defs example_defs)

text \<open>
  Claim C1, amended. For an assistant message handled by the OpenAI or the Claude
  converter: if the message is merged into the preceding model-role message, what is
  appended are its tool calls and no thought part; otherwise exactly one new model-role
  message is appended, and its thought parts are: none when thinking is disabled, none
  when thinking is enabled and no signature resolves, and exactly one, carrying the
  resolved signature, when thinking is enabled and a signature resolves. The resolved
  signature is the explicit signature of the message (for Claude the first truthy
  signature of its thinking blocks), else the reasoning signature of the signature
  context, else its tool signature.
\<close>

theorem C1_thought_part:
  "(handleAssistantMessage e m msgs th model sid ht = Inr out \<longrightarrow>
      (if msgs \<noteq> [] \<and> role (last msgs) = Model \<and> msg_tool_calls m \<noteq> [] \<and>
          openai_hasContent m = Inr False
       then out = butlast msgs @
              [(last msgs) \<lparr> parts := parts (last msgs) @ openai_toolCalls e m th model sid ht \<rparr>] \<and>
            filter is_thought (openai_toolCalls e m th model sid ht) = []
       else \<exists>ps. out = msgs @ [\<lparr> role = Model, parts = ps \<rparr>] \<and>
              filter is_thought ps =
                (if th \<and> truthy (js_or (js_or (msg_thoughtSignature m)
                                 (reasoningSignature (getSignatureContext e sid model ht)))
                          (toolSignature (getSignatureContext e sid model ht)))
                 then [ThoughtPart (case msg_reasoning_content m of
                                      Some r \<Rightarrow> if r \<noteq> [] then r else '' ''
                                    | None \<Rightarrow> '' '')
                         (js_or (js_or (msg_thoughtSignature m)
                                       (reasoningSignature (getSignatureContext e sid model ht)))
                                (toolSignature (getSignatureContext e sid model ht)))]
                 else []))) \<and>
   (if msgs \<noteq> [] \<and> role (last msgs) = Model \<and>
       scanToolCalls (claude_assistant_scan e cm th model sid ht) \<noteq> [] \<and>
       \<not> (textContent (claude_assistant_scan e cm th model sid ht) \<noteq> [] \<and>
          trim (textContent (claude_assistant_scan e cm th model sid ht)) \<noteq> [])
    then handleClaudeAssistantMessage e cm msgs th model sid ht =
           butlast msgs @
             [(last msgs) \<lparr> parts := parts (last msgs) @
                 scanToolCalls (claude_assistant_scan e cm th model sid ht) \<rparr>] \<and>
         filter is_thought (scanToolCalls (claude_assistant_scan e cm th model sid ht)) = []
    else \<exists>ps. handleClaudeAssistantMessage e cm msgs th model sid ht =
                 msgs @ [\<lparr> role = Model, parts = ps \<rparr>] \<and>
           filter is_thought ps =
             (if th \<and> truthy (js_or (js_or (messageSignature (claude_assistant_scan e cm th model sid ht))
                                    (reasoningSignature (getSignatureContext e sid model ht)))
                             (toolSignature (getSignatureContext e sid model ht)))
              then [ThoughtPart '' ''
                      (js_or (js_or (messageSignature (claude_assistant_scan e cm th model sid ht))
                                    (reasoningSignature (getSignatureContext e sid model ht)))
                             (toolSignature (getSignatureContext e sid model ht)))]
              else []))"
  using openai_thought_emitted [of e m msgs th model sid ht out]
    claude_thought_emitted [of msgs e cm th model sid ht]
  by blast

theorem C1_thought_part_witness:
  "handleAssistantMessage example_env
     ((example_assistant (ContentString ''Hi there!'') [] None)
        \<lparr> msg_reasoning_content := Some ''This is some reasoning'' \<rparr>)
     [\<lparr> role = User, parts = [TextPart ''Hello''] \<rparr>] True ''model'' ''session'' False =
   Inr [\<lparr> role = User, parts = [TextPart ''Hello''] \<rparr>,
        \<lparr> role = Model,
          parts = [ThoughtPart ''This is some reasoning'' (Some ''R-fallback''),
                   TextPart ''Hi there!''] \<rparr>]"
  using C1_thought_part
    [of example_env
        "(example_assistant (ContentString ''Hi there!'') [] None)
           \<lparr> msg_reasoning_content := Some ''This is some reasoning'' \<rparr>"
        "[\<lparr> role = User, parts = [TextPart ''Hello''] \<rparr>]" True "''model''" "''session''" False
        "[\<lparr> role = User, parts = [TextPart ''Hello''] \<rparr>,
          \<lparr> role = Model,
            parts = [ThoughtPart ''This is some reasoning'' (Some ''R-fallback''),
                     TextPart ''Hi there!''] \<rparr>]"
        "\<lparr> cl_role = ClaudeAssistant, cl_content = ClaudeNone \<rparr>"]
  by (simp add: openai_defs example_defs)

text \<open>
  Claim C2, as stated, fails: the three tiers (explicit, then cached, then fallback) do
  not describe how the candidates of a part are ordered. With thinking enabled, a cached
  tool signature and no cached reasoning signature:
  \<^item> the function-call part of a tool call without a signature of its own, in a message
    that carries the explicit signature \<open>explicit\<close>, gets the cached tool signature, not
    the explicit one;
  \<^item> the thought part of a message without an explicit signature gets the fallback
    reasoning signature although the cache holds a tool signature for the session and
    model;
  \<^item> with the fallback policy off, the same thought part gets the cached tool signature:
    a thought part is signed with a tool signature when no reasoning signature resolves.
\<close>

theorem C2_signature_precedence_counterexample:
  "openai_toolCalls example_env
     (example_assistant ContentNone [example_call ''call_1'' ''f'' None] (Some ''explicit''))
     True ''model'' ''session'' True =
     [FunctionCallPart ''call_1'' ''f'' (QueryObject ''{}'') (Some ''T-cached'')] \<and>
   openai_parts example_env (example_assistant ContentNone [] None)
     True ''model'' ''session'' True False = [ThoughtPart '' '' (Some ''R-fallback'')] \<and>
   openai_parts (example_env \<lparr> useFallbackSignature := False \<rparr>)
     (example_assistant ContentNone [] None)
     True ''model'' ''session'' True False = [ThoughtPart '' '' (Some ''T-cached'')] \<and>
   useCachedSignature example_env \<and>
   getReasoningSignature example_env ''session'' ''model'' = None \<and>
   getToolSignature example_env ''session'' ''model'' = Some ''T-cached'' \<and>
   getThoughtSignatureForModel example_env ''model'' = Some ''R-fallback''"
  by (simp add: openai_defs example_defs)

text \<open>
  Claim C2, amended. With thinking enabled the signature attached to a part is the first
  truthy candidate of a chain in which each kind of signature keeps the order explicit,
  cached, fallback, and the chain of the part's own kind comes before the other kind's:
  \<^item> OpenAI function call: the tool call's own signature, the cached tool signature, the
    fallback tool signature, the message's explicit signature, the cached reasoning
    signature, the fallback reasoning signature;
  \<^item> Claude function call: the tool-use block's own signature, the cached and the fallback
    tool signature, the cached and the fallback reasoning signature;
  \<^item> thought part: the message's explicit signature (for Claude the signatures of its
    thinking blocks, in order), the cached and the fallback reasoning signature, the
    cached and the fallback tool signature; no thought part when none is truthy.
  A cached signature is read only when the cache-read policy is on, a fallback signature
  only when the fallback policy is on, and both reads of the tool signature are off when
  the cache-only-tool-signatures policy is on and the request has no tools.
\<close>

theorem C2_signature_precedence:
  "map thoughtSignature_of (openai_toolCalls e m True model sid ht) =
     map (\<lambda>toolCall. first_truthy
            [tc_thoughtSignature toolCall,
             cached_tool e sid model ht, fallback_tool e model ht,
             msg_thoughtSignature m,
             cached_reasoning e sid model, fallback_reasoning e model])
         (msg_tool_calls m) \<and>
   map thoughtSignature_of (filter is_thought (openai_parts e m True model sid ht hc)) =
     (case first_truthy
             [msg_thoughtSignature m,
              cached_reasoning e sid model, fallback_reasoning e model,
              cached_tool e sid model ht, fallback_tool e model ht] of
        None \<Rightarrow> []
      | Some s \<Rightarrow> [Some s]) \<and>
   map thoughtSignature_of (scanToolCalls (claude_assistant_scan e cm True model sid ht)) =
     map (\<lambda>sg. first_truthy [sg, cached_tool e sid model ht, fallback_tool e model ht,
                              cached_reasoning e sid model, fallback_reasoning e model])
         (tool_use_signatures (claude_items (cl_content cm))) \<and>
   map thoughtSignature_of (filter is_thought (claude_parts e cm True model sid ht)) =
     (case first_truthy
             (thinking_signatures (claude_items (cl_content cm)) @
              [cached_reasoning e sid model, fallback_reasoning e model,
               cached_tool e sid model ht, fallback_tool e model ht]) of
        None \<Rightarrow> []
      | Some s \<Rightarrow> [Some s]) \<and>
   (cacheOnlyToolSignatures e \<and> \<not> ht \<longrightarrow>
      toolSignature (getSignatureContext e sid model ht) = None \<and>
      cached_tool e sid model ht = None \<and> fallback_tool e model ht = None)"
  using openai_call_signatures [of e m model sid ht]
    openai_thought_signature [of e m model sid ht hc]
    claude_call_signatures [of e cm model sid ht]
    claude_thought_signature [of e cm model sid ht]
    tool_reads_gated [of e ht sid model]
  by (simp add: cached_tool_def fallback_tool_def del: first_truthy.simps)

theorem C2_signature_precedence_witness:
  "openai_toolCalls (example_env \<lparr> cacheOnlyToolSignatures := True \<rparr>)
     (example_assistant ContentNone [example_call ''call_1'' ''f'' None] None)
     True ''model'' ''session'' False =
     [FunctionCallPart ''call_1'' ''f'' (QueryObject ''{}'') (Some ''R-fallback'')] \<and>
   toolSignature (getSignatureContext (example_env \<lparr> cacheOnlyToolSignatures := True \<rparr>)
                    ''session'' ''model'' False) = None"
  using C2_signature_precedence
    [of "example_env \<lparr> cacheOnlyToolSignatures := True \<rparr>"
        "example_assistant ContentNone [example_call ''call_1'' ''f'' None] None"
        "''model''" "''session''" False False
        "\<lparr> cl_role = ClaudeAssistant, cl_content = ClaudeNone \<rparr>"]
  by (simp add: openai_defs example_defs)

section \<open>The claims about the transport\<close>

text \<open>
  Claim C4 does not hold of the parser: the body that comes in the chunk of the header
  boundary is decoded to a string and encoded again, while later chunks are kept as
  bytes. The response \<open>HTTP/1.1 200 OK\<close>, the boundary, and the two bytes C3 A9 of the
  character U+00E9 has the body U+00E9 when fed whole, and the body U+FFFD U+FFFD when
  fed in two chunks split at offset 20, between the two bytes. (Lemma
  \<open>request_split_ascii\<close> above shows the claim for responses of ASCII bytes.)
\<close>

theorem C4_split_inside_character:
  "request example_lib example_config [example_head @ [0xC3, 0xA9]] [] (Some 0) =
     (Resolved \<lparr> data = DataText [0xE9], status = 200, statusText = ascii ''OK'',
                  headers = [] \<rparr>, []) \<and>
   request example_lib example_config
     [take 20 (example_head @ [0xC3, 0xA9]), drop 20 (example_head @ [0xC3, 0xA9])] [] (Some 0) =
     (Resolved \<lparr> data = DataText [0xFFFD, 0xFFFD], status = 200, statusText = ascii ''OK'',
                  headers = [] \<rparr>, [])"
proof -
  have cut: "take 20 (example_head @ [0xC3, 0xA9]) = example_head @ [0xC3]"
    "drop 20 (example_head @ [0xC3, 0xA9]) = [0xA9]"
    by (simp_all add: example_head_bytes)
  have second: "on_stdout_data example_lib
      (on_stdout_data example_lib parser_init (example_head @ [0xC3])) [0xA9] =
     \<lparr> headersParsed = True, responseHeaders = [], responseStatus = 200,
       responseStatusText = ascii ''OK'',
       headerBuffer = buffer_toString (example_head @ [0xC3]),
       bodyChunks = [[0xEF, 0xBF, 0xBD], [0xA9]] \<rparr>"
    by (simp only: parse_head_cut) (simp add: on_stdout_data_def)
  have whole: "request example_lib example_config [example_head @ [0xC3, 0xA9]] [] (Some 0) =
     (Resolved \<lparr> data = DataText [0xE9], status = 200, statusText = ascii ''OK'',
                  headers = [] \<rparr>, [])"
    by (simp only: request_def foldl.simps parse_head_whole)
       (simp add: on_close_def example_lib_def example_config_def decode_samples ascii_def)
  have split: "request example_lib example_config [example_head @ [0xC3], [0xA9]] [] (Some 0) =
     (Resolved \<lparr> data = DataText [0xFFFD, 0xFFFD], status = 200, statusText = ascii ''OK'',
                  headers = [] \<rparr>, [])"
    by (simp only: request_def foldl.simps second)
       (simp add: on_close_def example_lib_def example_config_def decode_samples ascii_def)
  show ?thesis
    unfolding cut by (rule conjI [OF whole split])
qed

text \<open>
  Claim C6, as stated, fails on an empty error stream: the empty text is not valid JSON,
  yet the message is not that raw text but the default \<open>Process exited with code 3\<close>.
\<close>

theorem C6_exit_code_error_counterexample:
  "on_close example_lib example_config parser_init [] (Some 3) =
     (Rejected \<lparr> err_message = ascii ''Process exited with code 3'',
                  err_code = ECONNABORTED,
                  err_errorType = Some (JStr (ascii ''UNKNOWN_ERROR'')),
                  err_exitCode = Some (Some 3), err_response = None \<rparr>, []) \<and>
   JSON_parse example_lib [] = None \<and>
   ascii ''Process exited with code 3'' \<noteq> []"
  by (simp add: on_close_def errorInfo_def get_property_def error_message_def
        show_exit_code_def show_int_def example_lib_def ascii_def Let_def)

text \<open>
  Claim C6, amended. When the subprocess exits with a code other than 0 and the error
  stream is not a text that \<open>JSON.parse\<close> reads as \<open>null\<close>, the call rejects with an error
  whose code is \<open>ECONNABORTED\<close> (the timeout class) for exit code 3, \<open>ERR_CONFIG\<close> for 4
  and \<open>ERR_NETWORK\<close> for anything else, and whose message is:
  \<^item> \<open>Process exited with code\<close> and the code, when the error stream is empty;
  \<^item> the raw text of the error stream, when it is not empty and not valid JSON;
  \<^item> the \<open>error\<close> field of the JSON object read from the error stream (its string
    conversion when it is not a string), when the stream is a JSON object with that
    field;
  \<^item> empty, when the stream is valid JSON without an \<open>error\<close> field: an object without
    it, or a value that is not an object.
  The theorem gives the whole rejection value in each of these cases. (On the JSON text
  \<open>null\<close> reading the \<open>error\<close> property throws inside the handler and the call is not
  rejected by it, lemma \<open>on_close_stderr_null\<close> above; that case is left out.)
\<close>

theorem C6_exit_code_error:
  assumes "code \<noteq> Some 0"
    and "stderrData = [] \<or> JSON_parse lib stderrData \<noteq> Some JNull"
  shows
  "on_close lib cfg st stderrData code =
     (Rejected
        \<lparr> err_message =
            (if stderrData = [] then ascii ''Process exited with code '' @ show_exit_code code
             else (case JSON_parse lib stderrData of
                     None \<Rightarrow> stderrData
                   | Some parsed \<Rightarrow>
                       (case parsed of
                          JObj kvs \<Rightarrow>
                            (case map_of kvs (ascii ''error'') of
                               None \<Rightarrow> []
                             | Some v \<Rightarrow> (case v of JStr s \<Rightarrow> s | _ \<Rightarrow> String_of lib v))
                        | _ \<Rightarrow> []))),
          err_code = (if code = Some 3 then ECONNABORTED
                      else if code = Some 4 then ERR_CONFIG else ERR_NETWORK),
          err_errorType =
            (if stderrData = [] then Some (JStr (ascii ''UNKNOWN_ERROR''))
             else (case JSON_parse lib stderrData of
                     None \<Rightarrow> Some (JStr (ascii ''UNKNOWN_ERROR''))
                   | Some parsed \<Rightarrow>
                       (case parsed of
                          JObj kvs \<Rightarrow> map_of kvs (ascii ''error_type'')
                        | _ \<Rightarrow> None))),
          err_exitCode = Some code, err_response = None \<rparr>, [])"
proof (cases "stderrData = []")
  case True
  with assms(1) show ?thesis
    by (simp add: on_close_def errorInfo_def get_property_def error_message_def ascii_def
          Let_def)
next
  case False
  show ?thesis
  proof (cases "JSON_parse lib stderrData")
    case None
    with False assms(1) show ?thesis
      by (simp add: on_close_def errorInfo_def get_property_def error_message_def ascii_def
            Let_def)
  next
    case (Some parsed)
    with False assms(2) have "parsed \<noteq> JNull" by simp
    with Some False assms(1) show ?thesis
      by (cases parsed)
         (auto simp add: on_close_def errorInfo_def get_property_def error_message_def Let_def
            split: option.splits json.splits)
  qed
qed

theorem C6_exit_code_error_witness:
  "on_close example_json_lib example_config parser_init example_stderr (Some 3) =
     (Rejected \<lparr> err_message = ascii ''read timeout'', err_code = ECONNABORTED,
                  err_errorType = Some (JStr (ascii ''TIMEOUT'')),
                  err_exitCode = Some (Some 3), err_response = None \<rparr>, []) \<and>
   on_close example_lib example_config parser_init (ascii ''boom'') (Some 4) =
     (Rejected \<lparr> err_message = ascii ''boom'', err_code = ERR_CONFIG,
                  err_errorType = Some (JStr (ascii ''UNKNOWN_ERROR'')),
                  err_exitCode = Some (Some 4), err_response = None \<rparr>, [])"
proof -
  have ne: "Some (3::int) \<noteq> Some 0" "Some (4::int) \<noteq> Some 0" by simp_all
  have s: "example_stderr \<noteq> []" by (simp add: example_stderr_def ascii_def)
  have p: "JSON_parse example_json_lib example_stderr =
      Some (JObj [(ascii ''error'', JStr (ascii ''read timeout'')),
                  (ascii ''error_type'', JStr (ascii ''TIMEOUT''))])"
    by (simp add: example_json_lib_def)
  have m: "map_of [(ascii ''error'', JStr (ascii ''read timeout'')),
                   (ascii ''error_type'', JStr (ascii ''TIMEOUT''))] (ascii ''error'') =
             Some (JStr (ascii ''read timeout''))"
    "map_of [(ascii ''error'', JStr (ascii ''read timeout'')),
             (ascii ''error_type'', JStr (ascii ''TIMEOUT''))] (ascii ''error_type'') =
             Some (JStr (ascii ''TIMEOUT''))"
    by (simp_all add: ascii_def)
  have b: "ascii ''boom'' \<noteq> []" "JSON_parse example_lib (ascii ''boom'') = None"
    by (simp_all add: ascii_def example_lib_def)
  have n: "example_stderr = [] \<or> JSON_parse example_json_lib example_stderr \<noteq> Some JNull"
    "ascii ''boom'' = [] \<or> JSON_parse example_lib (ascii ''boom'') \<noteq> Some JNull"
    by (simp_all add: p b)
  from C6_exit_code_error [OF ne(1) n(1), of example_config parser_init]
       C6_exit_code_error [OF ne(2) n(2), of example_config parser_init]
       s p m b
  show ?thesis by simp
qed




text \<open>
  Claim C5. For an upstream error with status 403: when the body is recognised by
  \<open>isCallerDoesNotHavePermission\<close> the call throws the context-limit error and hands no
  token to the disable hook; for every other body it hands the token to the disable hook
  exactly once and throws the account-disabled error. Both errors are created by
  \<open>createApiError\<close> from the upstream status and the raw error body.
\<close>

theorem C5_forbidden:
  assumes "getUpstreamStatus up error = Some 403"
  shows
  "(isCallerDoesNotHavePermission up (readUpstreamErrorBody up error) \<longrightarrow>
      fst (handleApiError up error token dumpId st) =
        createApiError up (ContextExceeded (readUpstreamErrorBody up error)) (Some 403)
          (readUpstreamErrorBody up error) \<and>
      disabledTokens (snd (handleApiError up error token dumpId st)) = disabledTokens st) \<and>
   (\<not> isCallerDoesNotHavePermission up (readUpstreamErrorBody up error) \<longrightarrow>
      fst (handleApiError up error token dumpId st) =
        createApiError up (AccountDisabled (readUpstreamErrorBody up error)) (Some 403)
          (readUpstreamErrorBody up error) \<and>
      disabledTokens (snd (handleApiError up error token dumpId st)) =
        disabledTokens st @ [token])"
  using assms by (simp add: handleApiError_def Let_def split: option.splits)

theorem C5_forbidden_witness:
  "handleApiError example_upstream (403, ''CALLER_DOES_NOT_HAVE_PERMISSION'') ''token-1'' None
     \<lparr> disabledTokens = [], dumpedResponses = [] \<rparr> =
     ((ContextExceeded ''CALLER_DOES_NOT_HAVE_PERMISSION'', Some 403,
       ''CALLER_DOES_NOT_HAVE_PERMISSION''),
      \<lparr> disabledTokens = [], dumpedResponses = [] \<rparr>) \<and>
   handleApiError example_upstream (403, ''PERMISSION_DENIED'') ''token-1'' None
     \<lparr> disabledTokens = [], dumpedResponses = [] \<rparr> =
     ((AccountDisabled ''PERMISSION_DENIED'', Some 403, ''PERMISSION_DENIED''),
      \<lparr> disabledTokens = [''token-1''], dumpedResponses = [] \<rparr>)"
proof -
  have a: "getUpstreamStatus example_upstream (403, ''CALLER_DOES_NOT_HAVE_PERMISSION'') = Some 403"
    "getUpstreamStatus example_upstream (403, ''PERMISSION_DENIED'') = Some 403"
    by (simp_all add: example_upstream_def)
  from C5_forbidden [OF a(1), of "''token-1''" None "\<lparr> disabledTokens = [], dumpedResponses = [] \<rparr>"]
       C5_forbidden [OF a(2), of "''token-1''" None "\<lparr> disabledTokens = [], dumpedResponses = [] \<rparr>"]
  show ?thesis
    by (simp add: example_upstream_def handleApiError_def Let_def)
qed


end
